theory Spec2Isabelle
  imports Main "HOL-Library.Word"
begin

section \<open>Strings and buffers\<close>

text \<open>
  A JavaScript string is a sequence of UTF-16 code units; a Node \<open>Buffer\<close> is a
  sequence of bytes. The functions below index, slice and compare strings by code unit,
  as \<open>String.prototype.match\<close>, \<open>substring\<close> and \<open>===\<close> do.
\<close>

type_synonym ustring = "16 word list"
type_synonym bytes = "8 word list"

text \<open>An ASCII literal of the source, as code units.\<close>

definition js :: "string \<Rightarrow> ustring" where
  "js s = map (\<lambda>c. of_nat (of_char c)) s"

section \<open>The token extractor: \<open>extractNonce\<close>\<close>

text \<open>
  The source (src/extractors/megacloud.ts, lines 7-16; the same function stands in the
  variants of the extractor that carry it):
  \<^verbatim>\<open>
  function extractNonce(html: string): string | null {
    const match1 = html.match(/\b[a-zA-Z0-9]{48}\b/);
    if (match1) return match1[0];
    const match2 = html.match(
      /\b([a-zA-Z0-9]{16})\b.*?\b([a-zA-Z0-9]{16})\b.*?\b([a-zA-Z0-9]{16})\b/
    );
    if (match2) return match2[1] + match2[2] + match2[3];
    return null;
  }
  \<close>
  Both regular expressions have no flags. The character classes of the two patterns:
  \<open>[a-zA-Z0-9]\<close>, the word characters \<open>\w\<close> that decide \<open>\b\<close>, and the
  line terminators that \<open>.\<close> does not match.
\<close>

definition is_alnum :: "16 word \<Rightarrow> bool" where
  "is_alnum c \<longleftrightarrow>
     (0x30 \<le> c \<and> c \<le> 0x39) \<or> (0x41 \<le> c \<and> c \<le> 0x5A) \<or> (0x61 \<le> c \<and> c \<le> 0x7A)"

definition is_word_char :: "16 word \<Rightarrow> bool" where
  "is_word_char c \<longleftrightarrow> is_alnum c \<or> c = 0x5F"

definition is_line_terminator :: "16 word \<Rightarrow> bool" where
  "is_line_terminator c \<longleftrightarrow> c = 0x0A \<or> c = 0x0D \<or> c = 0x2028 \<or> c = 0x2029"

text \<open>
  \<open>\b\<close> at position \<open>i\<close>: exactly one of the code unit before \<open>i\<close> and the code
  unit at \<open>i\<close> is a word character; the positions outside the string count as
  non-word.
\<close>

definition word_before :: "ustring \<Rightarrow> nat \<Rightarrow> bool" where
  "word_before s i \<longleftrightarrow> 0 < i \<and> i \<le> length s \<and> is_word_char (s ! (i - 1))"

definition word_at :: "ustring \<Rightarrow> nat \<Rightarrow> bool" where
  "word_at s i \<longleftrightarrow> i < length s \<and> is_word_char (s ! i)"

definition word_boundary :: "ustring \<Rightarrow> nat \<Rightarrow> bool" where
  "word_boundary s i \<longleftrightarrow> word_before s i \<noteq> word_at s i"

text \<open>\<open>substring s i n\<close> is \<open>s.substring(i, i + n)\<close>.\<close>

definition substring :: "ustring \<Rightarrow> nat \<Rightarrow> nat \<Rightarrow> ustring" where
  "substring s i n = take n (drop i s)"

text \<open>\<open>[a-zA-Z0-9]{n}\<close> matched at position \<open>i\<close>.\<close>

definition class_run :: "ustring \<Rightarrow> nat \<Rightarrow> nat \<Rightarrow> bool" where
  "class_run s i n \<longleftrightarrow> i + n \<le> length s \<and> list_all is_alnum (substring s i n)"

text \<open>\<open>\b[a-zA-Z0-9]{n}\b\<close> matched at position \<open>i\<close>.\<close>

definition token_at :: "nat \<Rightarrow> ustring \<Rightarrow> nat \<Rightarrow> bool" where
  "token_at n s i \<longleftrightarrow> word_boundary s i \<and> class_run s i n \<and> word_boundary s (i + n)"

text \<open>
  \<open>html.match(re)\<close> without the \<open>g\<close> flag tries the start positions
  \<open>0, 1, ..., html.length\<close> in order and returns the first match. The first pattern
  has no choice point, so its match is the first position where it holds.
\<close>

definition match1 :: "ustring \<Rightarrow> nat option" where
  "match1 s = find (token_at 48 s) [0..<Suc (length s)]"

text \<open>
  The lazy \<open>.*?\<close> started at position \<open>from\<close> consumes no code unit first and one
  more at each backtrack, never a line terminator: the continuation \<open>P\<close> is tried at
  \<open>from, from + 1, ...\<close> up to the first line terminator or the end of the string,
  and the first position where it succeeds is taken.
\<close>

definition dot_limit :: "ustring \<Rightarrow> nat \<Rightarrow> nat" where
  "dot_limit s from = from + length (takeWhile (\<lambda>c. \<not> is_line_terminator c) (drop from s))"

definition lazy_dots :: "ustring \<Rightarrow> nat \<Rightarrow> (nat \<Rightarrow> bool) \<Rightarrow> nat option" where
  "lazy_dots s from P = find P [from..<Suc (dot_limit s from)]"

text \<open>
  The second pattern, by its three groups. \<open>third_at s j\<close> is the start of group 3
  when group 2 starts at \<open>j\<close>; \<open>second_at s i\<close> is the start of group 2 when group 1
  starts at \<open>i\<close>: the first position after the lazy dots where group 2 matches and
  the rest of the pattern can be completed (a position where it cannot is backtracked
  over). \<open>match2 s\<close> is the first start position with a complete match, with the
  starts of its three groups.
\<close>

definition third_at :: "ustring \<Rightarrow> nat \<Rightarrow> nat option" where
  "third_at s j = lazy_dots s (j + 16) (token_at 16 s)"

definition second_at :: "ustring \<Rightarrow> nat \<Rightarrow> nat option" where
  "second_at s i = lazy_dots s (i + 16) (\<lambda>j. token_at 16 s j \<and> third_at s j \<noteq> None)"

definition match2 :: "ustring \<Rightarrow> (nat \<times> nat \<times> nat) option" where
  "match2 s =
     (case find (\<lambda>i. token_at 16 s i \<and> second_at s i \<noteq> None) [0..<Suc (length s)] of
        None \<Rightarrow> None
      | Some i \<Rightarrow>
          (case second_at s i of
             None \<Rightarrow> None
           | Some j \<Rightarrow>
               (case third_at s j of
                  None \<Rightarrow> None
                | Some k \<Rightarrow> Some (i, j, k))))"

definition extractNonce :: "ustring \<Rightarrow> ustring option" where
  "extractNonce html =
     (case match1 html of
        Some i \<Rightarrow> Some (substring html i 48)
      | None \<Rightarrow>
          (case match2 html of
             Some (i, j, k) \<Rightarrow>
               Some (substring html i 16 @ substring html j 16 @ substring html k 16)
           | None \<Rightarrow> None))"

subsection \<open>The claims' own words about the token\<close>

text \<open>
  A contiguous alphanumeric run of exactly \<open>n\<close> characters at position \<open>i\<close>,
  delimited by word boundaries: \<open>n\<close> alphanumeric code units, with no word
  character just before and none just after.
\<close>

definition spec_token_run :: "ustring \<Rightarrow> nat \<Rightarrow> nat \<Rightarrow> bool" where
  "spec_token_run s i n \<longleftrightarrow>
     i + n \<le> length s \<and> list_all is_alnum (substring s i n) \<and>
     (i = 0 \<or> \<not> is_word_char (s ! (i - 1))) \<and>
     (i + n = length s \<or> \<not> is_word_char (s ! (i + n)))"

text \<open>
  Two runs of 16 with nothing but characters other than line terminators between the
  end of one (\<open>a\<close>) and the start of the next (\<open>b\<close>); three runs in document order
  on one line.
\<close>

definition gap_ok :: "ustring \<Rightarrow> nat \<Rightarrow> nat \<Rightarrow> bool" where
  "gap_ok s a b \<longleftrightarrow>
     a \<le> b \<and> b \<le> length s \<and> list_all (\<lambda>c. \<not> is_line_terminator c) (substring s a (b - a))"

definition spec_triple :: "ustring \<Rightarrow> nat \<Rightarrow> nat \<Rightarrow> nat \<Rightarrow> bool" where
  "spec_triple s i j k \<longleftrightarrow>
     spec_token_run s i 16 \<and> spec_token_run s j 16 \<and> spec_token_run s k 16 \<and>
     gap_ok s (i + 16) j \<and> gap_ok s (j + 16) k"


section \<open>Values that cross the system boundary\<close>

text \<open>
  Errors are values: every \<open>throw\<close> of the source and every rejected promise is an
  \<open>Inl\<close>. \<open>Error\<close> carries the message of \<open>new Error(...)\<close>; \<open>TypeError\<close> is
  what \<open>new URL\<close> and a property read on \<open>undefined\<close> throw; \<open>AxiosError\<close> is a
  rejected \<open>axios.get\<close>; \<open>DecipherError\<close> is what \<open>createDecipheriv\<close>,
  \<open>update\<close> or \<open>final\<close> throw; \<open>SyntaxError\<close> is what \<open>JSON.parse\<close> throws.
\<close>

datatype error =
    Error string
  | TypeError
  | AxiosError
  | DecipherError
  | SyntaxError

text \<open>
  \<^verbatim>\<open>
  export type track = { file: string; label?: string; kind: string; default?: boolean };
  export type extractedSrc = {
    sources: { file: string; type?: string }[] | string;
    tracks: track[]; t: number; server: number; encrypted?: boolean;
  };
  \<close>
  An optional field, and a field the code guards with \<open>||\<close> or \<open>&&\<close>, is an
  \<open>option\<close>: \<open>None\<close> is \<open>undefined\<close>.
\<close>

record track =
  track_file :: ustring
  track_label :: "ustring option"
  track_kind :: ustring
  track_default :: "bool option"

record source =
  src_file :: ustring
  src_type :: "ustring option"

datatype sources_field =
    SourcesString ustring
  | SourcesArray "source list"

record extractedSrc =
  es_sources :: "sources_field option"
  es_tracks :: "track list option"
  es_t :: "int option"
  es_server :: "int option"
  es_encrypted :: "bool option"

text \<open>What \<open>extract2\<close> returns, and what \<open>MegaCloud.extract\<close> returns
  (\<open>{ sources: any[]; tracks?: track[] }\<close>).\<close>

record ExtractedData =
  ed_sources :: "source list"
  ed_tracks :: "track list"
  ed_t :: int
  ed_server :: int

record ResolutionResult =
  res_sources :: "source list"
  res_tracks :: "track list option"

section \<open>The platform: Node's \<open>Buffer\<close>, \<open>crypto\<close> and \<open>JSON\<close>\<close>

text \<open>
  The library functions the extractor calls are parameters of the model. A digest has
  the width of its hash (\<open>md5.digest()\<close> is a 16-byte buffer, a SHA-256 digest a
  32-byte one). \<open>aes_256_cbc_decrypt key iv data\<close> stands for
  \<^verbatim>\<open>
  const decipher = crypto.createDecipheriv('aes-256-cbc', key, iv);
  let out = decipher.update(data);
  out = Buffer.concat([out, decipher.final()]);
  \<close>
  and is \<open>None\<close> when one of the three calls throws (a key or IV of the wrong length,
  a length that is no multiple of the block, a padding that does not validate).
  \<open>JSON_parse_file_url\<close> is \<open>JSON.parse\<close> read through the two properties
  \<open>obj?.file\<close> and \<open>obj?.url\<close> the caller takes from it, at the type the caller
  declares for them (\<open>string | null\<close>); \<open>JSON_parse_sources\<close> is \<open>JSON.parse\<close>
  read as the \<open>unencryptedSrc[]\<close> the caller casts it to. Both are \<open>None\<close> when
  the parse (or, for the second, the following \<open>.map\<close>) throws.
\<close>

record parsed_obj =
  obj_file :: "ustring option"
  obj_url :: "ustring option"

record node_lib =
  base64_decode :: "ustring \<Rightarrow> bytes"
  utf8_encode :: "ustring \<Rightarrow> bytes"
  utf8_decode :: "bytes \<Rightarrow> ustring"
  md5 :: "bytes \<Rightarrow> 128 word"
  sha256 :: "bytes \<Rightarrow> 256 word"
  aes_256_cbc_decrypt :: "bytes \<Rightarrow> bytes \<Rightarrow> bytes \<Rightarrow> bytes option"
  JSON_parse_file_url :: "ustring \<Rightarrow> parsed_obj option"
  JSON_parse_sources :: "ustring \<Rightarrow> source list option"

text \<open>The bytes of a digest, most significant first.\<close>

definition digest_bytes :: "'a::len word \<Rightarrow> bytes" where
  "digest_bytes w = map (\<lambda>i. ucast (drop_bit (8 * i) w)) (rev [0..<LENGTH('a) div 8])"

text \<open>\<open>Buffer.from('Salted__')\<close>: the eight ASCII bytes of the marker.\<close>

definition Salted :: bytes where
  "Salted = [0x53, 0x61, 0x6C, 0x74, 0x65, 0x64, 0x5F, 0x5F]"

text \<open>
  \<open>Buffer.from(x, 'base64')\<close>. \<open>decryptLocally\<close> is declared on a string, and
  \<open>extract2\<close> hands it \<open>data.sources as string\<close>, a cast that changes nothing at run
  time: when the payload's \<open>sources\<close> is an array, the array itself arrives here, and
  \<open>Buffer.from\<close> of an array takes one byte per element, an element that is no
  number counting as 0.
\<close>

definition Buffer_from_base64 :: "node_lib \<Rightarrow> sources_field \<Rightarrow> bytes" where
  "Buffer_from_base64 lib x =
     (case x of
        SourcesString s \<Rightarrow> base64_decode lib s
      | SourcesArray xs \<Rightarrow> replicate (length xs) 0)"

section \<open>Local decryption (the variant of src/Readme.md, lines 954-1166)\<close>

text \<open>
  \<^verbatim>\<open>
  function evpBytesToKey(password: string, salt: Buffer, keyLen = 32, ivLen = 16) {
    let data = Buffer.alloc(0);
    let prev = Buffer.alloc(0);
    while (data.length < keyLen + ivLen) {
      const md5 = crypto.createHash('md5');
      md5.update(Buffer.concat([prev, Buffer.from(password), salt]));
      prev = md5.digest();
      data = Buffer.concat([data, prev]);
    }
    return { key: data.slice(0, keyLen), iv: data.slice(keyLen, keyLen + ivLen) };
  }
  \<close>
  The loop is \<open>evp_loop\<close>, on the state \<open>(data, prev)\<close>; every pass appends the 16
  bytes of a digest, which is its termination.
\<close>

function evp_loop :: "node_lib \<Rightarrow> ustring \<Rightarrow> bytes \<Rightarrow> nat \<Rightarrow> bytes \<Rightarrow> bytes \<Rightarrow> bytes" where
  "evp_loop lib password salt n data prev =
     (if length data < n then
        evp_loop lib password salt n
          (data @ digest_bytes (md5 lib (prev @ utf8_encode lib password @ salt)))
          (digest_bytes (md5 lib (prev @ utf8_encode lib password @ salt)))
      else data)"
  by pat_completeness auto
termination
  by (relation "measure (\<lambda>(lib, password, salt, n, data, prev). n - length data)")
    (auto simp: digest_bytes_def)

declare evp_loop.simps [simp del]

definition evpBytesToKey :: "node_lib \<Rightarrow> ustring \<Rightarrow> bytes \<Rightarrow> nat \<Rightarrow> nat \<Rightarrow> bytes \<times> bytes" where
  "evpBytesToKey lib password salt keyLen ivLen =
     (let data = evp_loop lib password salt (keyLen + ivLen) [] []
      in (take keyLen data, take ivLen (drop keyLen data)))"

text \<open>
  \<^verbatim>\<open>
  function decryptOpenSSL(encryptedB64: string, password: string): string {
    const buf = Buffer.from(encryptedB64, 'base64');
    if (!buf.slice(0, 8).equals(Buffer.from('Salted__'))) {
      throw new Error('Invalid OpenSSL format');
    }
    const salt = buf.slice(8, 16);
    const { key, iv } = evpBytesToKey(password, salt);
    const decipher = crypto.createDecipheriv('aes-256-cbc', key, iv);
    let out = decipher.update(buf.slice(16));
    out = Buffer.concat([out, decipher.final()]);
    return out.toString('utf8');
  }
  \<close>
\<close>

definition decryptOpenSSL :: "node_lib \<Rightarrow> sources_field \<Rightarrow> ustring \<Rightarrow> error + ustring" where
  "decryptOpenSSL lib encryptedB64 password =
     (let buf = Buffer_from_base64 lib encryptedB64 in
      if take 8 buf \<noteq> Salted then Inl (Error ''Invalid OpenSSL format'')
      else
        (let salt = take 8 (drop 8 buf);
             (key, iv) = evpBytesToKey lib password salt 32 16
         in case aes_256_cbc_decrypt lib key iv (drop 16 buf) of
              None \<Rightarrow> Inl DecipherError
            | Some out \<Rightarrow> Inr (utf8_decode lib out)))"

text \<open>
  \<^verbatim>\<open>
  function decryptLocally(encryptedData: string, nonce: string, secret: string): string {
    // 1) Try OpenSSL salted payload first
    try {
      return decryptOpenSSL(encryptedData, secret);
    } catch {}
    // 2) Fallback: AES-256-CBC with key=sha256(secret) and iv=first 16 bytes of nonce
    try {
      const key = crypto.createHash('sha256').update(String(secret)).digest();
      const iv = Buffer.from(String(nonce)).slice(0, 16);
      const decipher = crypto.createDecipheriv('aes-256-cbc', key, iv);
      const enc = Buffer.from(encryptedData, 'base64');
      let out = decipher.update(enc);
      out = Buffer.concat([out, decipher.final()]);
      return out.toString('utf8');
    } catch {}
    throw new Error('Local decryption failed');
  }
  \<close>
  \<open>nonce_fallback\<close> is the body of the second \<open>try\<close>.
\<close>

definition nonce_fallback :: "node_lib \<Rightarrow> sources_field \<Rightarrow> ustring \<Rightarrow> ustring \<Rightarrow> error + ustring" where
  "nonce_fallback lib encryptedData nonce secret =
     (let key = digest_bytes (sha256 lib (utf8_encode lib secret));
          iv = take 16 (utf8_encode lib nonce)
      in case aes_256_cbc_decrypt lib key iv (Buffer_from_base64 lib encryptedData) of
           None \<Rightarrow> Inl DecipherError
         | Some out \<Rightarrow> Inr (utf8_decode lib out))"

definition decryptLocally :: "node_lib \<Rightarrow> sources_field \<Rightarrow> ustring \<Rightarrow> ustring \<Rightarrow> error + ustring" where
  "decryptLocally lib encryptedData nonce secret =
     (case decryptOpenSSL lib encryptedData secret of
        Inr text \<Rightarrow> Inr text
      | Inl _ \<Rightarrow>
          (case nonce_fallback lib encryptedData nonce secret of
             Inr text \<Rightarrow> Inr text
           | Inl _ \<Rightarrow> Inl (Error ''Local decryption failed'')))"

subsection \<open>The salted local scheme, in the claim's words\<close>






section \<open>The network\<close>

text \<open>
  The outbound calls are parameters of the model. \<open>new_URL\<close> is \<open>new URL(url)\<close>
  (\<open>None\<close>: it throws); each \<open>get_\<close> function is one \<open>axios.get\<close> (\<open>None\<close>:
  the promise is rejected). The sources endpoint answers with \<open>null\<close> or
  \<open>undefined\<close> (\<open>Some None\<close>), on which no field can be read, or with a value whose
  fields are read, every field it lacks reading \<open>undefined\<close>; the empty string an empty
  body gives is such a value, with none of the fields. The key document is read through
  the secret fields the variants probe, \<open>vidstr\<close>, \<open>rabbit\<close> and
  \<open>rabbitstream.key\<close>, each a string or absent. Every function records the calls it
  makes, in order: the fetches, and \<open>Decrypt\<close> for a call of a decryption strategy.
\<close>

record url =
  url_href :: ustring
  url_pathname :: ustring

record keydoc =
  vidstr :: "ustring option"
  rabbit :: "ustring option"
  rabbitstream_key :: "ustring option"

record world =
  new_URL :: "ustring \<Rightarrow> url option"
  get_page :: "ustring \<Rightarrow> ustring option"
  get_sources :: "ustring \<Rightarrow> extractedSrc option option"
  get_key :: "keydoc option"

definition no_fields :: extractedSrc where
  "no_fields = \<lparr> es_sources = None, es_tracks = None, es_t = None, es_server = None,
      es_encrypted = None \<rparr>"

datatype call =
    GET_page ustring
  | GET_sources ustring
  | GET_key
  | Decrypt

definition MAIN_URL :: ustring where
  "MAIN_URL = js ''https://videostr.net''"

text \<open>
  \<open>html.match(/data-id="([^"]+)"/)?.[1]\<close>: at the first position where the literal
  \<open>data-id="\<close> stands, followed by at least one character other than a quote and
  then by a quote, the characters between the two quotes. The class \<open>[^"]\<close> takes
  line terminators too, and a run that reaches the end of the string with no closing
  quote is no match.
\<close>

definition data_id_at :: "ustring \<Rightarrow> nat \<Rightarrow> ustring option" where
  "data_id_at s i =
     (if substring s i 9 = js ''data-id=\"'' then
        (let rest = drop (i + 9) s;
             v = takeWhile (\<lambda>c. c \<noteq> 0x22) rest
         in if v \<noteq> [] \<and> length v < length rest then Some v else None)
      else None)"

definition fileId_of :: "ustring \<Rightarrow> ustring option" where
  "fileId_of html =
     (case find (\<lambda>i. data_id_at html i \<noteq> None) [0..<Suc (length html)] of
        None \<Rightarrow> None
      | Some i \<Rightarrow> data_id_at html i)"

text \<open>\<^verbatim>\<open>`${MAIN_URL}/embed-1/v3/e-1/getSources?id=${fileId}&_k=${nonce}`\<close>\<close>

definition getSources_url :: "ustring \<Rightarrow> ustring \<Rightarrow> ustring" where
  "getSources_url fileId nonce =
     MAIN_URL @ js ''/embed-1/v3/e-1/getSources?id='' @ fileId @ js ''&_k='' @ nonce"

text \<open>
  The expressions the variants share:
  \<^verbatim>\<open>data.sources.map((src) => ({ file: src.file, type: src.type || "hls" }))\<close>,
  \<^verbatim>\<open>[{ file: data.sources, type: "hls" }]\<close>,
  \<^verbatim>\<open>(data.tracks || []).filter((track) => track.kind === "captions" || track.kind === "subtitles")\<close>
  and \<^verbatim>\<open>data.t || 0\<close>.
\<close>

definition type_or_hls :: "ustring option \<Rightarrow> ustring" where
  "type_or_hls ty = (case ty of None \<Rightarrow> js ''hls'' | Some t \<Rightarrow> if t = [] then js ''hls'' else t)"

definition map_sources :: "source list \<Rightarrow> source list" where
  "map_sources xs =
     map (\<lambda>src. \<lparr> src_file = src_file src, src_type = Some (type_or_hls (src_type src)) \<rparr>) xs"

definition single_source :: "ustring \<Rightarrow> source list" where
  "single_source f = [\<lparr> src_file = f, src_type = Some (js ''hls'') \<rparr>]"

definition tracks_or_empty :: "track list option \<Rightarrow> track list" where
  "tracks_or_empty ts = (case ts of None \<Rightarrow> [] | Some l \<Rightarrow> l)"

definition caption_tracks :: "track list option \<Rightarrow> track list" where
  "caption_tracks ts =
     filter (\<lambda>track. track_kind track = js ''captions'' \<or> track_kind track = js ''subtitles'')
       (tracks_or_empty ts)"

definition number_or_0 :: "int option \<Rightarrow> int" where
  "number_or_0 n = (case n of None \<Rightarrow> 0 | Some k \<Rightarrow> k)"

section \<open>The extractor of src/extractors/megacloud.ts\<close>

text \<open>
  \<^verbatim>\<open>
  async extract2(embedIframeURL: URL) {
    const { data: html } = await axios.get<string>(embedIframeURL.href, {...});
    const fileIdMatch = html.match(/data-id="([^"]+)"/);
    const fileId = fileIdMatch?.[1];
    if (!fileId) throw new Error("Could not find file ID in embed page");
    const nonce = extractNonce(html);
    if (!nonce) throw new Error("Could not extract nonce from embed page");
    const apiUrl = `${MAIN_URL}/embed-1/v3/e-1/getSources?id=${fileId}&_k=${nonce}`;
    const { data } = await axios.get<extractedSrc>(apiUrl, {...});
    let sources: any[] = [];
    if (Array.isArray(data.sources)) {
      sources = data.sources.map((src) => ({ file: src.file, type: src.type || "hls" }));
    } else if (typeof data.sources === "string") {
      sources = [{ file: data.sources, type: "hls" }];
    }
    const tracks = (data.tracks || []).filter(
      (track) => track.kind === "captions" || track.kind === "subtitles");
    return { sources, tracks, t: data.t || 0, server: data.server || 0 };
  }
  \<close>
  Nothing in this file catches: a rejected fetch, a missing file id, a missing nonce
  and an answer of the sources endpoint that is \<open>null\<close> or \<open>undefined\<close>
  (\<open>data.sources\<close> read on no object) leave \<open>extract2\<close> as errors. There is no
  test of \<open>data\<close>: on an empty body \<open>data\<close> is the empty string, its fields read
  \<open>undefined\<close>, and the function returns empty sources and tracks, which is the case
  of \<open>no_fields\<close>.
\<close>

definition payload_sources :: "extractedSrc \<Rightarrow> source list" where
  "payload_sources data =
     (case es_sources data of
        Some (SourcesArray xs) \<Rightarrow> map_sources xs
      | Some (SourcesString s) \<Rightarrow> single_source s
      | None \<Rightarrow> [])"

text \<open>
  The first half of \<open>extract2\<close>, up to the answer of the sources endpoint: it gives
  the nonce and the payload (\<open>None\<close> for an answer that is \<open>null\<close> or
  \<open>undefined\<close>), or the error thrown on the way. The variant of src/Readme.md, lines 954-1166, has the same statements.
\<close>

definition fetch_payload :: "world \<Rightarrow> url \<Rightarrow> call list \<times> (error + ustring \<times> extractedSrc option)" where
  "fetch_payload w embedIframeURL =
     (case get_page w (url_href embedIframeURL) of
        None \<Rightarrow> ([GET_page (url_href embedIframeURL)], Inl AxiosError)
      | Some html \<Rightarrow>
          (case fileId_of html of
             None \<Rightarrow>
               ([GET_page (url_href embedIframeURL)],
                Inl (Error ''Could not find file ID in embed page''))
           | Some fileId \<Rightarrow>
               (case extractNonce html of
                  None \<Rightarrow>
                    ([GET_page (url_href embedIframeURL)],
                     Inl (Error ''Could not extract nonce from embed page''))
                | Some nonce \<Rightarrow>
                    (case get_sources w (getSources_url fileId nonce) of
                       None \<Rightarrow>
                         ([GET_page (url_href embedIframeURL),
                           GET_sources (getSources_url fileId nonce)], Inl AxiosError)
                     | Some data \<Rightarrow>
                         ([GET_page (url_href embedIframeURL),
                           GET_sources (getSources_url fileId nonce)], Inr (nonce, data))))))"

definition MegaCloud_extract2 :: "world \<Rightarrow> url \<Rightarrow> call list \<times> (error + ExtractedData)" where
  "MegaCloud_extract2 w embedIframeURL =
     (case fetch_payload w embedIframeURL of
        (log, Inl e) \<Rightarrow> (log, Inl e)
      | (log, Inr (nonce, None)) \<Rightarrow> (log, Inl TypeError)
      | (log, Inr (nonce, Some data)) \<Rightarrow>
          (log, Inr \<lparr> ed_sources = payload_sources data,
                      ed_tracks = caption_tracks (es_tracks data),
                      ed_t = number_or_0 (es_t data),
                      ed_server = number_or_0 (es_server data) \<rparr>))"

text \<open>
  \<^verbatim>\<open>
  static async extract(url: string): Promise<{ sources: any[]; tracks?: track[] }> {
    const embedUrl = new URL(url);
    const instance = new MegaCloud();
    const result = await instance.extract2(embedUrl);
    return { sources: result.sources, tracks: result.tracks };
  }
  \<close>
\<close>

definition MegaCloud_extract :: "world \<Rightarrow> ustring \<Rightarrow> call list \<times> (error + ResolutionResult)" where
  "MegaCloud_extract w u =
     (case new_URL w u of
        None \<Rightarrow> ([], Inl TypeError)
      | Some embedUrl \<Rightarrow>
          (case MegaCloud_extract2 w embedUrl of
             (log, Inl e) \<Rightarrow> (log, Inl e)
           | (log, Inr result) \<Rightarrow>
               (log, Inr \<lparr> res_sources = ed_sources result,
                           res_tracks = Some (ed_tracks result) \<rparr>)))"

section \<open>The extractor with local decryption (src/Readme.md, lines 954-1166)\<close>

text \<open>
  \<^verbatim>\<open>
  async extract2(embedIframeURL: URL): Promise<ExtractedData> {
    const extractedData: ExtractedData = { sources: [], tracks: [], t: 0, server: 0 };
    try {
      ... (the fetches, as above)
      const { data } = await axios.get<extractedSrc>(apiUrl, { headers });
      if (!data) return extractedData;
      const isEncrypted = data.encrypted;
      if (isEncrypted && data.sources) {
        try {
          const { data: keyData } = await axios.get(KEY_URL);
          const secret = keyData?.vidstr;
          if (!secret) { throw new Error('No decryption key found'); }
          const decryptedText = decryptLocally(data.sources as string, nonce, secret);
          let fileUrl: string | null = null;
          try {
            const obj = JSON.parse(decryptedText);
            fileUrl = obj?.file || obj?.url || null;
          } catch { fileUrl = decryptedText; }
          if (!fileUrl) throw new Error('Video URL not found in decrypted text');
          extractedData.sources = [{ file: fileUrl, type: 'hls' }];
        } catch (err: any) { console.error('MegaCloud decrypt error:', err.message); }
      } else if (Array.isArray(data.sources)) {
        // Non-encrypted sources array
        extractedData.sources = data.sources.map(src => ({ file: src.file, type: src.type || 'hls' }));
      } else if (typeof data.sources === 'string') {
        // Non-encrypted single source
        extractedData.sources = [{ file: data.sources, type: 'hls' }];
      }
      extractedData.tracks = (data.tracks || []).filter(
        track => track.kind === 'captions' || track.kind === 'subtitles');
      extractedData.t = data.t || 0;
      extractedData.server = data.server || 0;
      return extractedData;
    } catch (err: any) {
      console.error("Extraction error in extract2:", err.message);
      return extractedData;
    }
  }
  \<close>
\<close>

definition extractedData0 :: ExtractedData where
  "extractedData0 = \<lparr> ed_sources = [], ed_tracks = [], ed_t = 0, ed_server = 0 \<rparr>"

text \<open>A value of \<open>data.sources\<close> that counts as true: an array, or a string that is
  not empty.\<close>

definition truthy_sources :: "sources_field option \<Rightarrow> bool" where
  "truthy_sources x =
     (case x of
        None \<Rightarrow> False
      | Some (SourcesString s) \<Rightarrow> s \<noteq> []
      | Some (SourcesArray xs) \<Rightarrow> True)"

text \<open>\<open>obj?.file || obj?.url || null\<close>, and \<open>decryptedText\<close> when the parse throws.\<close>

definition file_url_of :: "node_lib \<Rightarrow> ustring \<Rightarrow> ustring option" where
  "file_url_of lib decryptedText =
     (case JSON_parse_file_url lib decryptedText of
        None \<Rightarrow> Some decryptedText
      | Some obj \<Rightarrow>
          (if obj_file obj \<noteq> None \<and> obj_file obj \<noteq> Some [] then obj_file obj
           else if obj_url obj \<noteq> None \<and> obj_url obj \<noteq> Some [] then obj_url obj
           else None))"

text \<open>The body of the inner \<open>try\<close>: the sources it assigns, or the error it throws.\<close>

definition decrypt_block_local ::
  "node_lib \<Rightarrow> world \<Rightarrow> sources_field \<Rightarrow> ustring \<Rightarrow> call list \<times> (error + source list)" where
  "decrypt_block_local lib w encrypted nonce =
     (case get_key w of
        None \<Rightarrow> ([GET_key], Inl AxiosError)
      | Some keyData \<Rightarrow>
          (if vidstr keyData = None \<or> vidstr keyData = Some [] then
             ([GET_key], Inl (Error ''No decryption key found''))
           else
             (case decryptLocally lib encrypted nonce (the (vidstr keyData)) of
                Inl e \<Rightarrow> ([GET_key, Decrypt], Inl e)
              | Inr decryptedText \<Rightarrow>
                  (case file_url_of lib decryptedText of
                     None \<Rightarrow>
                       ([GET_key, Decrypt], Inl (Error ''Video URL not found in decrypted text''))
                   | Some fileUrl \<Rightarrow>
                       (if fileUrl = [] then
                          ([GET_key, Decrypt],
                           Inl (Error ''Video URL not found in decrypted text''))
                        else ([GET_key, Decrypt], Inr (single_source fileUrl)))))))"

text \<open>Step 3 of \<open>extract2\<close>, from \<open>const isEncrypted\<close> to \<open>return extractedData\<close>.\<close>

definition resolve_sources_local ::
  "node_lib \<Rightarrow> world \<Rightarrow> ustring \<Rightarrow> extractedSrc \<Rightarrow> call list \<times> source list" where
  "resolve_sources_local lib w nonce data =
     (if es_encrypted data = Some True \<and> truthy_sources (es_sources data) then
        (case decrypt_block_local lib w (the (es_sources data)) nonce of
           (log, Inl e) \<Rightarrow> (log, [])
         | (log, Inr srcs) \<Rightarrow> (log, srcs))
      else ([], payload_sources data))"

definition payload_stage_local ::
  "node_lib \<Rightarrow> world \<Rightarrow> ustring \<Rightarrow> extractedSrc \<Rightarrow> call list \<times> ExtractedData" where
  "payload_stage_local lib w nonce data =
     (case resolve_sources_local lib w nonce data of
        (log, srcs) \<Rightarrow>
          (log, \<lparr> ed_sources = srcs,
                  ed_tracks = caption_tracks (es_tracks data),
                  ed_t = number_or_0 (es_t data),
                  ed_server = number_or_0 (es_server data) \<rparr>))"

text \<open>The body of the outer \<open>try\<close>, and \<open>extract2\<close> with its \<open>catch\<close>: no statement
  after the first assignment to \<open>extractedData\<close> throws, so the \<open>catch\<close> returns it as
  initialised. The test \<open>!data\<close> holds for \<open>null\<close> and \<open>undefined\<close> (\<open>None\<close>)
  and for the empty string of an empty body; for the latter, \<open>no_fields\<close>, the
  statements after the test give the \<open>extractedData\<close> that the early return gives.\<close>

definition extract2_local_body ::
  "node_lib \<Rightarrow> world \<Rightarrow> url \<Rightarrow> call list \<times> (error + ExtractedData)" where
  "extract2_local_body lib w embedIframeURL =
     (case fetch_payload w embedIframeURL of
        (log, Inl e) \<Rightarrow> (log, Inl e)
      | (log, Inr (nonce, None)) \<Rightarrow> (log, Inr extractedData0)
      | (log, Inr (nonce, Some data)) \<Rightarrow>
          (case payload_stage_local lib w nonce data of
             (log', d) \<Rightarrow> (log @ log', Inr d)))"

definition MegaCloud_extract2_local ::
  "node_lib \<Rightarrow> world \<Rightarrow> url \<Rightarrow> call list \<times> (error + ExtractedData)" where
  "MegaCloud_extract2_local lib w embedIframeURL =
     (case extract2_local_body lib w embedIframeURL of
        (log, Inl e) \<Rightarrow> (log, Inr extractedData0)
      | (log, Inr d) \<Rightarrow> (log, Inr d))"

text \<open>
  \<^verbatim>\<open>
  static async extract(url: string, referer: string = ''): Promise<{ sources: any[], tracks?: track[] }> {
    try {
      const embedUrl = new URL(url);
      const instance = new MegaCloud();
      const result = await instance.extract2(embedUrl);
      return { sources: result.sources, tracks: result.tracks };
    } catch (err: any) {
      console.error("MegaCloud extraction error:", err.message);
      return { sources: [] };
    }
  }
  \<close>
\<close>

definition MegaCloud_extract_local ::
  "node_lib \<Rightarrow> world \<Rightarrow> ustring \<Rightarrow> call list \<times> (error + ResolutionResult)" where
  "MegaCloud_extract_local lib w u =
     (case new_URL w u of
        None \<Rightarrow> ([], Inr \<lparr> res_sources = [], res_tracks = None \<rparr>)
      | Some embedUrl \<Rightarrow>
          (case MegaCloud_extract2_local lib w embedUrl of
             (log, Inl e) \<Rightarrow> (log, Inr \<lparr> res_sources = [], res_tracks = None \<rparr>)
           | (log, Inr result) \<Rightarrow>
               (log, Inr \<lparr> res_sources = ed_sources result,
                           res_tracks = Some (ed_tracks result) \<rparr>)))"

section \<open>The extractor with the salted scheme only (src/Readme.md, lines 1367-1525)\<close>

text \<open>
  \<^verbatim>\<open>
  async extract2(embedIframeURL: URL): Promise<ExtractedData> {
    const extractedData: ExtractedData = { sources: [], tracks: [], t: 0, server: 0 };
    try {
      const id = embedIframeURL.pathname.split("/").pop() || "";
      let token: string | undefined;
      try {
        const { data: html } = await axios.get<string>(embedIframeURL.href, {...});
        const match = html.match(/\b[a-zA-Z0-9]{48}\b/);
        token = match?.[0];
      } catch (err) { console.warn(...); }
      const apiUrl = `${MAIN_URL}/embed-1/v3/e-1/getSources?id=${id}${token ? `&_k=${token}` : ''}`;
      const { data } = await axios.get<extractedSrc>(apiUrl, { headers });
      if (!data) return extractedData;
      if (typeof data.sources === 'string') {
        try {
          const { data: keyData } = await axios.get(KEY_URL);
          const password: string | undefined =
            keyData?.vidstr ?? keyData?.rabbit ?? keyData?.rabbitstream?.key;
          if (password) {
            const decrypted = decryptOpenSSL(data.sources, password);
            const parsed = JSON.parse(decrypted) as unencryptedSrc[];
            extractedData.sources = parsed.map(src => ({ file: src.file, type: src.type }));
          }
        } catch (err: any) { console.error(...); }
      } else if (Array.isArray(data.sources)) {
        extractedData.sources = data.sources.map(src => ({ file: src.file, type: src.type }));
      }
      extractedData.tracks = data.tracks || [];
      extractedData.t = data.t || 0;
      extractedData.server = data.server || 0;
      return extractedData;
    } catch (err: any) {
      console.error("Extraction error in extract2:", err.message);
      return extractedData;
    }
  }
  \<close>
  \<open>decryptOpenSSL\<close> of this variant is the function of the same name above.
\<close>

text \<open>\<open>pathname.split("/").pop()\<close>: what follows the last slash.\<close>

definition last_segment :: "ustring \<Rightarrow> ustring" where
  "last_segment p = rev (takeWhile (\<lambda>c. c \<noteq> 0x2F) (rev p))"

definition fetch_token_openssl :: "world \<Rightarrow> ustring \<Rightarrow> call list \<times> ustring option" where
  "fetch_token_openssl w href =
     (case get_page w href of
        None \<Rightarrow> ([GET_page href], None)
      | Some html \<Rightarrow>
          ([GET_page href],
           (case match1 html of None \<Rightarrow> None | Some i \<Rightarrow> Some (substring html i 48))))"

definition getSources_url_openssl :: "ustring \<Rightarrow> ustring option \<Rightarrow> ustring" where
  "getSources_url_openssl ident token =
     MAIN_URL @ js ''/embed-1/v3/e-1/getSources?id='' @ ident @
       (case token of
          None \<Rightarrow> []
        | Some k \<Rightarrow> if k = [] then [] else js ''&_k='' @ k)"

text \<open>\<open>keyData?.vidstr ?? keyData?.rabbit ?? keyData?.rabbitstream?.key\<close>\<close>

definition password_of :: "keydoc \<Rightarrow> ustring option" where
  "password_of keyData =
     (case vidstr keyData of
        Some v \<Rightarrow> Some v
      | None \<Rightarrow> (case rabbit keyData of Some v \<Rightarrow> Some v | None \<Rightarrow> rabbitstream_key keyData))"

text \<open>The body of the inner \<open>try\<close>: the sources it assigns (\<open>None\<close> when it assigns
  nothing), or the error it throws.\<close>

definition decrypt_block_openssl ::
  "node_lib \<Rightarrow> world \<Rightarrow> ustring \<Rightarrow> call list \<times> (error + source list option)" where
  "decrypt_block_openssl lib w encrypted =
     (case get_key w of
        None \<Rightarrow> ([GET_key], Inl AxiosError)
      | Some keyData \<Rightarrow>
          (if password_of keyData = None \<or> password_of keyData = Some [] then
             ([GET_key], Inr None)
           else
             (case decryptOpenSSL lib (SourcesString encrypted) (the (password_of keyData)) of
                Inl e \<Rightarrow> ([GET_key, Decrypt], Inl e)
              | Inr decrypted \<Rightarrow>
                  (case JSON_parse_sources lib decrypted of
                     None \<Rightarrow> ([GET_key, Decrypt], Inl SyntaxError)
                   | Some parsed \<Rightarrow>
                       ([GET_key, Decrypt],
                        Inr (Some (map (\<lambda>src. \<lparr> src_file = src_file src,
                                                 src_type = src_type src \<rparr>) parsed)))))))"

definition resolve_sources_openssl ::
  "node_lib \<Rightarrow> world \<Rightarrow> extractedSrc \<Rightarrow> call list \<times> source list" where
  "resolve_sources_openssl lib w data =
     (case es_sources data of
        Some (SourcesString s) \<Rightarrow>
          (case decrypt_block_openssl lib w s of
             (log, Inr (Some srcs)) \<Rightarrow> (log, srcs)
           | (log, Inr None) \<Rightarrow> (log, [])
           | (log, Inl e) \<Rightarrow> (log, []))
      | Some (SourcesArray xs) \<Rightarrow>
          ([], map (\<lambda>src. \<lparr> src_file = src_file src, src_type = src_type src \<rparr>) xs)
      | None \<Rightarrow> ([], []))"

definition payload_stage_openssl ::
  "node_lib \<Rightarrow> world \<Rightarrow> extractedSrc \<Rightarrow> call list \<times> ExtractedData" where
  "payload_stage_openssl lib w data =
     (case resolve_sources_openssl lib w data of
        (log, srcs) \<Rightarrow>
          (log, \<lparr> ed_sources = srcs,
                  ed_tracks = tracks_or_empty (es_tracks data),
                  ed_t = number_or_0 (es_t data),
                  ed_server = number_or_0 (es_server data) \<rparr>))"

definition MegaCloud_extract2_openssl ::
  "node_lib \<Rightarrow> world \<Rightarrow> url \<Rightarrow> call list \<times> (error + ExtractedData)" where
  "MegaCloud_extract2_openssl lib w embedIframeURL =
     (case fetch_token_openssl w (url_href embedIframeURL) of
        (log, token) \<Rightarrow>
          (case get_sources w
                  (getSources_url_openssl (last_segment (url_pathname embedIframeURL)) token) of
             None \<Rightarrow>
               (log @ [GET_sources
                   (getSources_url_openssl (last_segment (url_pathname embedIframeURL)) token)],
                Inr extractedData0)
           | Some None \<Rightarrow>
               (log @ [GET_sources
                   (getSources_url_openssl (last_segment (url_pathname embedIframeURL)) token)],
                Inr extractedData0)
           | Some (Some data) \<Rightarrow>
               (case payload_stage_openssl lib w data of
                  (log', d) \<Rightarrow>
                    (log @ [GET_sources
                        (getSources_url_openssl (last_segment (url_pathname embedIframeURL))
                           token)] @ log',
                     Inr d))))"

text \<open>\<open>MegaCloud.extract\<close> of this variant is, word for word, the one of the variant with
  local decryption.\<close>

definition MegaCloud_extract_openssl ::
  "node_lib \<Rightarrow> world \<Rightarrow> ustring \<Rightarrow> call list \<times> (error + ResolutionResult)" where
  "MegaCloud_extract_openssl lib w u =
     (case new_URL w u of
        None \<Rightarrow> ([], Inr \<lparr> res_sources = [], res_tracks = None \<rparr>)
      | Some embedUrl \<Rightarrow>
          (case MegaCloud_extract2_openssl lib w embedUrl of
             (log, Inl e) \<Rightarrow> (log, Inr \<lparr> res_sources = [], res_tracks = None \<rparr>)
           | (log, Inr result) \<Rightarrow>
               (log, Inr \<lparr> res_sources = ed_sources result,
                           res_tracks = Some (ed_tracks result) \<rparr>)))"

section \<open>Title matching (the server, src/Readme.md, lines 407-632)\<close>

text \<open>
  Two built-in functions are parameters: \<open>String.prototype.toLowerCase\<close> and
  \<open>parseInt\<close>, whose result is an integer or \<open>NaN\<close> (\<open>None\<close>). White space is
  what \<open>trim\<close> strips and \<open>\s\<close> matches: the white space and line terminator code
  points of ECMAScript.
\<close>

record js_env =
  toLowerCase :: "ustring \<Rightarrow> ustring"
  parseInt :: "ustring \<Rightarrow> int option"

definition is_js_space :: "16 word \<Rightarrow> bool" where
  "is_js_space c \<longleftrightarrow>
     (0x09 \<le> c \<and> c \<le> 0x0D) \<or> c = 0x20 \<or> c = 0xA0 \<or> c = 0x1680 \<or>
     (0x2000 \<le> c \<and> c \<le> 0x200A) \<or> c = 0x2028 \<or> c = 0x2029 \<or> c = 0x202F \<or>
     c = 0x205F \<or> c = 0x3000 \<or> c = 0xFEFF"

definition trim :: "ustring \<Rightarrow> ustring" where
  "trim s = rev (dropWhile is_js_space (rev (dropWhile is_js_space s)))"

text \<open>\<open>s.split(/\s+/).filter((w) => w.length > 0)\<close>: the maximal runs of characters
  that are not white space.\<close>

definition split_words :: "ustring \<Rightarrow> ustring list" where
  "split_words s =
     filter (\<lambda>w. w \<noteq> [])
       (foldr (\<lambda>c acc. if is_js_space c then [] # acc
                        else (case acc of [] \<Rightarrow> [[c]] | w # ws \<Rightarrow> (c # w) # ws)) s [])"

text \<open>\<open>s.includes(t)\<close>: \<open>t\<close> stands somewhere in \<open>s\<close>.\<close>

definition str_includes :: "ustring \<Rightarrow> ustring \<Rightarrow> bool" where
  "str_includes s t \<longleftrightarrow> list_ex (\<lambda>i. take (length t) (drop i s) = t) [0..<Suc (length s)]"

text \<open>
  \<^verbatim>\<open>
  function isTitleSimilarEnough(title1: string, title2: string): boolean {
    title1 = title1.toLowerCase().trim();
    title2 = title2.toLowerCase().trim();
    if (title1 === title2) { return true; }
    const words1 = title1.split(/\s+/).filter((w) => w.length > 0);
    const words2 = title2.split(/\s+/).filter((w) => w.length > 0);
    if (words1.length <= 2 || words2.length <= 2) {
      const isSubstring = title1.includes(title2) || title2.includes(title1);
      if (isSubstring) { return true; }
    }
    const commonWords = words1.filter((word) => words2.includes(word));
    const wordOverlapRatio = commonWords.length / Math.min(words1.length, words2.length);
    if (wordOverlapRatio < 0.7) { return false; }
    return true;
  }
  \<close>
  The ratio is compared exactly: with \<open>c\<close> common words and \<open>m\<close> the smaller word
  count, \<open>c / m < 0.7\<close> is \<open>10 c < 7 m\<close> (for titles of fewer than \<open>10^15\<close>
  words the rounded quotient and the rounded constant compare the same way), and
  \<open>0 / 0\<close> is \<open>NaN\<close>, which is not below \<open>0.7\<close>.
\<close>

definition isTitleSimilarEnough :: "js_env \<Rightarrow> ustring \<Rightarrow> ustring \<Rightarrow> bool" where
  "isTitleSimilarEnough env title1 title2 =
     (let t1 = trim (toLowerCase env title1);
          t2 = trim (toLowerCase env title2)
      in if t1 = t2 then True
         else
           (let words1 = split_words t1;
                words2 = split_words t2
            in if (length words1 \<le> 2 \<or> length words2 \<le> 2) \<and> (str_includes t1 t2 \<or> str_includes t2 t1)
               then True
               else
                 (let commonWords = filter (\<lambda>word. word \<in> set words2) words1;
                      m = min (length words1) (length words2)
                  in if m \<noteq> 0 \<and> 10 * length commonWords < 7 * m then False else True)))"

text \<open>
  \<^verbatim>\<open>
  interface FlixHQSearchResult {
    id: string; title: string; type: string; releaseDate?: string; seasons?: number;
  }
  \<close>
  The TMDB details are a movie's (\<open>title\<close>, \<open>release_date\<close>) or a series'
  (\<open>name\<close>, \<open>first_air_date\<close>, \<open>number_of_seasons\<close>); the function casts them by
  its \<open>type\<close> argument, so the model keeps one object with every field optional.
\<close>

record FlixHQSearchResult =
  fr_id :: ustring
  fr_title :: ustring
  fr_type :: ustring
  fr_releaseDate :: "ustring option"
  fr_seasons :: "int option"

record tmdb_details =
  td_title :: "ustring option"
  td_name :: "ustring option"
  td_release_date :: "ustring option"
  td_first_air_date :: "ustring option"
  td_number_of_seasons :: "int option"

text \<open>\<open>m.releaseDate ? m.releaseDate.split("-")[0] : undefined\<close>\<close>

definition flixYear :: "FlixHQSearchResult \<Rightarrow> ustring option" where
  "flixYear m =
     (case fr_releaseDate m of
        None \<Rightarrow> None
      | Some d \<Rightarrow> if d = [] then None else Some (takeWhile (\<lambda>c. c \<noteq> 0x2D) d))"

text \<open>
  The callback of the season \<open>reduce\<close>:
  \<^verbatim>\<open>
  (closest, current) => {
    const currentSeasons = current.seasons || 0;
    const closestSeasons = closest.seasons || 0;
    const diffCurrent = Math.abs(currentSeasons - tmdbNumberOfSeasons);
    const diffClosest = Math.abs(closestSeasons - tmdbNumberOfSeasons);
    if (diffCurrent < diffClosest) { return current; }
    return closest;
  }
  \<close>
  and the callback of the year \<open>reduce\<close>, the same on
  \<open>parseInt(x.releaseDate ? x.releaseDate.split("-")[0] : "0")\<close>; a comparison with
  \<open>NaN\<close> is false.
\<close>

definition closer_seasons :: "int \<Rightarrow> FlixHQSearchResult \<Rightarrow> FlixHQSearchResult \<Rightarrow> FlixHQSearchResult" where
  "closer_seasons n closest current =
     (if \<bar>number_or_0 (fr_seasons current) - n\<bar> < \<bar>number_or_0 (fr_seasons closest) - n\<bar>
      then current else closest)"

definition year_number :: "js_env \<Rightarrow> FlixHQSearchResult \<Rightarrow> int option" where
  "year_number env m = parseInt env (case flixYear m of None \<Rightarrow> js ''0'' | Some y \<Rightarrow> y)"

definition closer_year ::
  "js_env \<Rightarrow> int \<Rightarrow> FlixHQSearchResult \<Rightarrow> FlixHQSearchResult \<Rightarrow> FlixHQSearchResult" where
  "closer_year env n closest current =
     (case (year_number env current, year_number env closest) of
        (Some currentYear, Some closestYear) \<Rightarrow>
          if \<bar>currentYear - n\<bar> < \<bar>closestYear - n\<bar> then current else closest
      | _ \<Rightarrow> closest)"

text \<open>
  \<open>findBestFlixHQMatch(searchResults, tmdbDetails, type)\<close>, lines 458-632. It throws
  a \<open>TypeError\<close> when the title it lower-cases is \<open>undefined\<close>. The three parts of the
  body are kept apart: the season matching of a series (\<open>None\<close>: it falls through),
  then the year matching, then the fallback.
\<close>

definition match_by_seasons ::
  "js_env \<Rightarrow> FlixHQSearchResult list \<Rightarrow> ustring \<Rightarrow> int \<Rightarrow> FlixHQSearchResult option" where
  "match_by_seasons env relevantResults tmdbTitle tmdbNumberOfSeasons =
     (case find (\<lambda>show. isTitleSimilarEnough env (fr_title show) tmdbTitle \<and>
                         fr_seasons show = Some tmdbNumberOfSeasons) relevantResults of
        Some foundMatch \<Rightarrow> Some foundMatch
      | None \<Rightarrow>
          (let matchingTitleShows =
                 filter (\<lambda>show. isTitleSimilarEnough env (fr_title show) tmdbTitle) relevantResults
           in if matchingTitleShows \<noteq> [] then
                Some (foldl (closer_seasons tmdbNumberOfSeasons) (hd matchingTitleShows)
                        matchingTitleShows)
              else None))"

definition match_by_year ::
  "js_env \<Rightarrow> bool \<Rightarrow> FlixHQSearchResult list \<Rightarrow> ustring \<Rightarrow> ustring option \<Rightarrow>
     FlixHQSearchResult option" where
  "match_by_year env isMovie relevantResults tmdbTitle tmdbYear =
     (case find (\<lambda>m. isTitleSimilarEnough env (fr_title m) tmdbTitle \<and> flixYear m = tmdbYear)
             relevantResults of
        Some exactMatch \<Rightarrow> Some exactMatch
      | None \<Rightarrow>
          (if isMovie \<and> tmdbYear \<noteq> None \<and> tmdbYear \<noteq> Some [] \<and> trim (the tmdbYear) \<noteq> []
           then None
           else
             (let matchingTitleResults =
                    filter (\<lambda>m. isTitleSimilarEnough env (fr_title m) tmdbTitle) relevantResults;
                  tmdbYearNum =
                    parseInt env
                      (if tmdbYear = None \<or> tmdbYear = Some [] then js ''0'' else the tmdbYear)
              in if matchingTitleResults \<noteq> [] then
                   (case tmdbYearNum of
                      Some n \<Rightarrow>
                        if 0 < n then
                          Some (foldl (closer_year env n) (hd matchingTitleResults)
                                  matchingTitleResults)
                        else Some (hd matchingTitleResults)
                    | None \<Rightarrow> Some (hd matchingTitleResults))
                 else if \<not> isMovie \<and> relevantResults \<noteq> [] then Some (hd relevantResults)
                 else None)))"

definition findBestFlixHQMatch ::
  "js_env \<Rightarrow> FlixHQSearchResult list \<Rightarrow> tmdb_details \<Rightarrow> ustring \<Rightarrow>
     error + FlixHQSearchResult option" where
  "findBestFlixHQMatch env results tmdbDetails ty =
     (let isMovie = (ty = js ''MOVIE'') in
      case (if isMovie then td_title tmdbDetails else td_name tmdbDetails) of
        None \<Rightarrow> Inl TypeError
      | Some title \<Rightarrow>
          (let tmdbTitle = toLowerCase env title;
               relevantResults = filter (\<lambda>m. fr_type m = ty) results
           in if relevantResults = [] then Inr None
              else
                (case (if \<not> isMovie
                       then (case td_number_of_seasons tmdbDetails of
                               None \<Rightarrow> None
                             | Some n \<Rightarrow> match_by_seasons env relevantResults tmdbTitle n)
                       else None) of
                   Some bestMatch \<Rightarrow> Inr (Some bestMatch)
                 | None \<Rightarrow>
                     Inr (match_by_year env isMovie relevantResults tmdbTitle
                            (map_option (take 4)
                               (if isMovie then td_release_date tmdbDetails
                                else td_first_air_date tmdbDetails))))))"

section \<open>Concrete inputs\<close>

text \<open>Pages: three 16-character runs on one line, the same runs on three lines, and
  a 48-character token inside a quoted attribute.\<close>

definition html_one_line :: ustring where
  "html_one_line = js ''aaaaaaaaaaaaaaaa bbbbbbbbbbbbbbbb cccccccccccccccc''"

definition html_three_lines :: ustring where
  "html_three_lines =
     js ''aaaaaaaaaaaaaaaa'' @ [0x0A] @ js ''bbbbbbbbbbbbbbbb'' @ [0x0A] @ js ''cccccccccccccccc''"

definition html_token :: ustring where
  "html_token = js ''k=\"0123456789abcdefghijklmnopqrstuvwxyzABCDEFGHIJKL\";''"


definition html_no_token :: ustring where
  "html_no_token = js ''<div id=\"player\"></div>''"

text \<open>
  A stand-in for the library, small enough to evaluate: the hashes are byte sums, the
  cipher reverses its input (and refuses a key or an IV of the wrong length), base64 and
  UTF-8 are the identity on bytes below 128.
\<close>

definition demo_md5 :: "bytes \<Rightarrow> 128 word" where
  "demo_md5 bs = foldr (\<lambda>b acc. ucast b + acc) bs 1"

definition demo_sha256 :: "bytes \<Rightarrow> 256 word" where
  "demo_sha256 bs = foldr (\<lambda>b acc. ucast b + acc) bs 1"


definition demo_decrypt :: "bytes \<Rightarrow> bytes \<Rightarrow> bytes \<Rightarrow> bytes option" where
  "demo_decrypt key iv data =
     (if length key = 32 \<and> length iv = 16 then Some (rev data) else None)"


definition demo_lib :: node_lib where
  "demo_lib = \<lparr> base64_decode = map ucast, utf8_encode = map ucast, utf8_decode = map ucast,
      md5 = demo_md5, sha256 = demo_sha256, aes_256_cbc_decrypt = demo_decrypt,
      JSON_parse_file_url = (\<lambda>_. None), JSON_parse_sources = (\<lambda>_. None) \<rparr>"


text \<open>
  Pages, payloads, key documents and a network that serves them: every page fetch
  answers \<open>page\<close>, the sources endpoint answers \<open>payload\<close>, the key-document fetch
  answers \<open>key\<close>.
\<close>

definition html_page :: ustring where
  "html_page = js ''<div data-id=\"abc123\"></div><i k=\"0123456789abcdefghijklmnopqrstuvwxyzABCDEFGHIJKL\">''"

definition embed_url :: ustring where
  "embed_url = js ''https://videostr.net/embed-1/v3/e-1/abc123''"

definition demo_world :: "ustring \<Rightarrow> extractedSrc option \<Rightarrow> keydoc option \<Rightarrow> world" where
  "demo_world page payload key =
     \<lparr> new_URL = (\<lambda>u. Some \<lparr> url_href = u, url_pathname = js ''/embed-1/v3/e-1/abc123'' \<rparr>),
       get_page = (\<lambda>_. Some page),
       get_sources = (\<lambda>_. Some payload),
       get_key = key \<rparr>"

definition en_captions :: track where
  "en_captions = \<lparr> track_file = js ''https://cdn/en.vtt'', track_label = Some (js ''English''),
      track_kind = js ''captions'', track_default = Some True \<rparr>"

definition thumbnails :: track where
  "thumbnails = \<lparr> track_file = js ''https://cdn/thumbs.vtt'', track_label = None,
      track_kind = js ''thumbnails'', track_default = None \<rparr>"

definition x_m3u8 :: source where
  "x_m3u8 = \<lparr> src_file = js ''https://cdn/x.m3u8'', src_type = Some (js ''hls'') \<rparr>"

definition payload_array :: "bool option \<Rightarrow> extractedSrc" where
  "payload_array flag =
     \<lparr> es_sources = Some (SourcesArray [x_m3u8]), es_tracks = Some [en_captions, thumbnails],
       es_t = Some 0, es_server = Some 1, es_encrypted = flag \<rparr>"

definition payload_string :: "ustring \<Rightarrow> bool option \<Rightarrow> extractedSrc" where
  "payload_string s flag =
     \<lparr> es_sources = Some (SourcesString s), es_tracks = Some [en_captions, thumbnails],
       es_t = Some 0, es_server = Some 1, es_encrypted = flag \<rparr>"

definition keydoc_empty :: keydoc where
  "keydoc_empty = \<lparr> vidstr = None, rabbit = None, rabbitstream_key = None \<rparr>"

definition demo_url :: url where
  "demo_url = \<lparr> url_href = embed_url, url_pathname = js ''/embed-1/v3/e-1/abc123'' \<rparr>"

definition demo_nonce :: ustring where
  "demo_nonce = js ''0123456789abcdefghijklmnopqrstuvwxyzABCDEFGHIJKL''"

definition demo_log :: "call list" where
  "demo_log = [GET_page embed_url, GET_sources (getSources_url (js ''abc123'') demo_nonce)]"

text \<open>
  Stand-ins for the two built-in functions, right on the ASCII inputs used below:
  lower-casing of the letters \<open>A\<close> to \<open>Z\<close>, and \<open>parseInt\<close> of an optional sign
  and decimal digits after leading white space (\<open>NaN\<close> when no digit stands there).
  Then two search results and the TMDB details of a movie.
\<close>

definition demo_toLowerCase :: "ustring \<Rightarrow> ustring" where
  "demo_toLowerCase s = map (\<lambda>c. if 0x41 \<le> c \<and> c \<le> 0x5A then c + 0x20 else c) s"

definition digit_value :: "16 word \<Rightarrow> int" where
  "digit_value c =
     (if c = 0x31 then 1 else if c = 0x32 then 2 else if c = 0x33 then 3
      else if c = 0x34 then 4 else if c = 0x35 then 5 else if c = 0x36 then 6
      else if c = 0x37 then 7 else if c = 0x38 then 8 else if c = 0x39 then 9 else 0)"

definition demo_parseInt :: "ustring \<Rightarrow> int option" where
  "demo_parseInt s =
     (let r = dropWhile is_js_space s;
          negative = (r \<noteq> [] \<and> hd r = 0x2D);
          body = (if r \<noteq> [] \<and> (hd r = 0x2D \<or> hd r = 0x2B) then tl r else r);
          digits = takeWhile (\<lambda>c. 0x30 \<le> c \<and> c \<le> 0x39) body
      in if digits = [] then None
         else Some ((if negative then - 1 else 1) *
                    foldl (\<lambda>acc c. 10 * acc + digit_value c) 0 digits))"

definition demo_env :: js_env where
  "demo_env = \<lparr> toLowerCase = demo_toLowerCase, parseInt = demo_parseInt \<rparr>"

definition dune_1984 :: FlixHQSearchResult where
  "dune_1984 = \<lparr> fr_id = js ''movie/dune-1984'', fr_title = js ''Dune'', fr_type = js ''MOVIE'',
      fr_releaseDate = Some (js ''1984-12-14''), fr_seasons = None \<rparr>"

definition dune_2021 :: FlixHQSearchResult where
  "dune_2021 = \<lparr> fr_id = js ''movie/dune-2021'', fr_title = js ''Dune'', fr_type = js ''MOVIE'',
      fr_releaseDate = Some (js ''2021-10-22''), fr_seasons = None \<rparr>"

definition movie_details :: "string \<Rightarrow> string \<Rightarrow> tmdb_details" where
  "movie_details title date =
     \<lparr> td_title = Some (js title), td_name = None, td_release_date = Some (js date),
       td_first_air_date = None, td_number_of_seasons = None \<rparr>"

section \<open>Properties of the token extractor\<close>

subsection \<open>Searching a range of positions\<close>

lemma find_upt_Some:
  "find P [0..<n] = Some i \<longleftrightarrow> i < n \<and> P i \<and> (\<forall>j<i. \<not> P j)"
  by (auto simp: find_Some_iff)

lemma find_upt_None: "find P [0..<n] = None \<longleftrightarrow> (\<forall>i<n. \<not> P i)"
  by (auto simp: find_None_iff)

lemma find_range_Some:
  "find P [a..<b] = Some i \<longleftrightarrow> a \<le> i \<and> i < b \<and> P i \<and> (\<forall>j. a \<le> j \<and> j < i \<longrightarrow> \<not> P j)"
proof
  assume "find P [a..<b] = Some i"
  then obtain k where k: "k < b - a" "P (a + k)" "i = a + k" "\<forall>j<k. \<not> P (a + j)"
    by (auto simp: find_Some_iff)
  have "\<not> P j" if "a \<le> j" "j < i" for j
  proof -
    from that k(3) have "j - a < k" by arith
    with k(4) have "\<not> P (a + (j - a))" by blast
    with that show ?thesis by simp
  qed
  with k show "a \<le> i \<and> i < b \<and> P i \<and> (\<forall>j. a \<le> j \<and> j < i \<longrightarrow> \<not> P j)"
    by auto
next
  assume r: "a \<le> i \<and> i < b \<and> P i \<and> (\<forall>j. a \<le> j \<and> j < i \<longrightarrow> \<not> P j)"
  then have "i - a < length [a..<b] \<and> P ([a..<b] ! (i - a)) \<and> i = [a..<b] ! (i - a) \<and>
      (\<forall>j<i - a. \<not> P ([a..<b] ! j))"
    by auto
  then show "find P [a..<b] = Some i"
    unfolding find_Some_iff by blast
qed

lemma find_range_None: "find P [a..<b] = None \<longleftrightarrow> (\<forall>i. a \<le> i \<and> i < b \<longrightarrow> \<not> P i)"
  by (auto simp: find_None_iff)

lemma length_substring: "i + n \<le> length s \<Longrightarrow> length (substring s i n) = n"
  by (simp add: substring_def)

lemma class_run_nth:
  "class_run s i n \<Longrightarrow> k < n \<Longrightarrow> is_alnum (s ! (i + k))"
  by (auto simp: class_run_def substring_def list_all_length)

lemma token_at_iff:
  assumes "0 < n"
  shows "token_at n s i \<longleftrightarrow> spec_token_run s i n"
proof (cases "class_run s i n")
  case False
  then show ?thesis by (auto simp: token_at_def spec_token_run_def class_run_def)
next
  case True
  then have len: "i + n \<le> length s" by (simp add: class_run_def)
  have first: "is_alnum (s ! i)" using class_run_nth [OF True, of 0] assms by simp
  have last: "is_alnum (s ! (i + n - 1))" 
    using class_run_nth [OF True, of "n - 1"] assms by (simp add: Nat.add_diff_assoc)
  have wa: "word_at s i" using first len assms by (simp add: word_at_def is_word_char_def)
  have wb: "word_before s (i + n)" using last len assms by (simp add: word_before_def is_word_char_def)
  have b1: "word_boundary s i \<longleftrightarrow> (i = 0 \<or> \<not> is_word_char (s ! (i - 1)))"
    using wa len by (auto simp: word_boundary_def word_before_def)
  have b2: "word_boundary s (i + n) \<longleftrightarrow> (i + n = length s \<or> \<not> is_word_char (s ! (i + n)))"
    using wb len by (auto simp: word_boundary_def word_at_def)
  show ?thesis using True b1 b2 by (auto simp: token_at_def spec_token_run_def class_run_def)
qed

lemma token_at_shape:
  "token_at n s i \<Longrightarrow> length (substring s i n) = n \<and> list_all is_alnum (substring s i n)"
  by (simp add: token_at_def class_run_def length_substring)

lemma lazy_dots_Some_P: "lazy_dots s from P = Some j \<Longrightarrow> P j"
  by (auto simp: lazy_dots_def find_Some_iff)

lemma match2_shape:
  assumes "match2 s = Some (i, j, k)"
  shows "token_at 16 s i \<and> token_at 16 s j \<and> token_at 16 s k"
proof -
  from assms obtain i0 where
    f: "find (\<lambda>i. token_at 16 s i \<and> second_at s i \<noteq> None) [0..<Suc (length s)] = Some i0"
    by (auto simp: match2_def split: option.splits)
  with assms have sj: "second_at s i0 = Some j" and tk: "third_at s j = Some k" and i: "i0 = i"
    by (auto simp: match2_def split: option.splits)
  from f have "token_at 16 s i0" by (auto simp: find_Some_iff)
  moreover from sj have "token_at 16 s j"
    unfolding second_at_def by (auto dest: lazy_dots_Some_P)
  moreover from tk have "token_at 16 s k"
    unfolding third_at_def by (auto dest: lazy_dots_Some_P)
  ultimately show ?thesis using i by simp
qed

lemma takeWhile_length_ge:
  "m \<le> length (takeWhile P xs) \<longleftrightarrow> m \<le> length xs \<and> list_all P (take m xs)"
proof (induction xs arbitrary: m)
  case Nil
  then show ?case by simp
next
  case (Cons x xs)
  then show ?case by (cases m) auto
qed

lemma gap_ok_iff:
  assumes "from \<le> length s"
  shows "gap_ok s from j \<longleftrightarrow> from \<le> j \<and> j \<le> dot_limit s from"
proof (cases "from \<le> j")
  case False
  then show ?thesis by (simp add: gap_ok_def)
next
  case True
  have "j \<le> dot_limit s from \<longleftrightarrow>
      j - from \<le> length (takeWhile (\<lambda>c. \<not> is_line_terminator c) (drop from s))"
    using True by (auto simp: dot_limit_def)
  also have "\<dots> \<longleftrightarrow> j - from \<le> length (drop from s) \<and>
      list_all (\<lambda>c. \<not> is_line_terminator c) (take (j - from) (drop from s))"
    by (rule takeWhile_length_ge)
  also have "\<dots> \<longleftrightarrow> j \<le> length s \<and>
      list_all (\<lambda>c. \<not> is_line_terminator c) (substring s from (j - from))"
    using True assms by (auto simp: substring_def)
  finally show ?thesis using True by (simp add: gap_ok_def)
qed

lemma lazy_dots_Some_iff:
  assumes "from \<le> length s"
  shows "lazy_dots s from P = Some j \<longleftrightarrow>
     gap_ok s from j \<and> P j \<and> (\<forall>j'. gap_ok s from j' \<and> j' < j \<longrightarrow> \<not> P j')"
  unfolding lazy_dots_def find_range_Some gap_ok_iff [OF assms]
  by (auto simp: less_Suc_eq_le)

lemma lazy_dots_None_iff:
  assumes "from \<le> length s"
  shows "lazy_dots s from P = None \<longleftrightarrow> (\<forall>j. gap_ok s from j \<longrightarrow> \<not> P j)"
  unfolding lazy_dots_def find_range_None gap_ok_iff [OF assms]
  by (auto simp: less_Suc_eq_le)

lemma token_at_end: "token_at n s i \<Longrightarrow> i + n \<le> length s"
  by (simp add: token_at_def class_run_def)

lemma third_at_exists:
  assumes "token_at 16 s j"
  shows "third_at s j \<noteq> None \<longleftrightarrow> (\<exists>k. gap_ok s (j + 16) k \<and> token_at 16 s k)"
  using lazy_dots_None_iff [OF token_at_end [OF assms], of "token_at 16 s"]
  by (auto simp: third_at_def)

lemma second_at_exists:
  assumes "token_at 16 s i"
  shows "second_at s i \<noteq> None \<longleftrightarrow> (\<exists>j k. spec_triple s i j k)"
proof -
  have "second_at s i \<noteq> None \<longleftrightarrow>
      (\<exists>j. gap_ok s (i + 16) j \<and> token_at 16 s j \<and> third_at s j \<noteq> None)"
    using lazy_dots_None_iff [OF token_at_end [OF assms],
        of "\<lambda>j. token_at 16 s j \<and> third_at s j \<noteq> None"]
    by (auto simp: second_at_def)
  also have "\<dots> \<longleftrightarrow> (\<exists>j k. spec_triple s i j k)"
  proof -
    have triple: "spec_triple s i j k \<longleftrightarrow>
        token_at 16 s j \<and> token_at 16 s k \<and> gap_ok s (i + 16) j \<and> gap_ok s (j + 16) k"
      for j k using assms by (simp add: spec_triple_def token_at_iff)
    show ?thesis unfolding triple using third_at_exists by blast
  qed
  finally show ?thesis .
qed

lemma starts_triple_iff:
  "token_at 16 s i \<and> second_at s i \<noteq> None \<longleftrightarrow> (\<exists>j k. spec_triple s i j k)"
  using second_at_exists [of s i] by (auto simp: spec_triple_def token_at_iff)

lemma no_48_run_match1:
  assumes "\<forall>i. \<not> spec_token_run html i 48"
  shows "match1 html = None"
  using assms unfolding match1_def find_upt_None by (simp add: token_at_iff)

lemma match2_first_triple:
  assumes t: "spec_triple s i j k"
    and least: "\<forall>i' j' k'. spec_triple s i' j' k' \<longrightarrow>
        i < i' \<or> (i = i' \<and> (j < j' \<or> (j = j' \<and> k \<le> k')))"
  shows "match2 s = Some (i, j, k)"
proof -
  from t have ti: "token_at 16 s i" and tj: "token_at 16 s j" and tk: "token_at 16 s k"
    and gij: "gap_ok s (i + 16) j" and gjk: "gap_ok s (j + 16) k"
    by (simp_all add: spec_triple_def token_at_iff)
  have "i < Suc (length s)" using token_at_end [OF ti] by simp
  moreover have "token_at 16 s i \<and> second_at s i \<noteq> None"
    using t starts_triple_iff by blast
  moreover have "\<forall>i'<i. \<not> (token_at 16 s i' \<and> second_at s i' \<noteq> None)"
    unfolding starts_triple_iff using least by fastforce
  ultimately have f: "find (\<lambda>i. token_at 16 s i \<and> second_at s i \<noteq> None) [0..<Suc (length s)] = Some i"
    unfolding find_upt_Some by blast
  have third_j: "third_at s j \<noteq> None"
    using third_at_exists [OF tj] gjk tk by blast
  have "\<not> (token_at 16 s j' \<and> third_at s j' \<noteq> None)" if "gap_ok s (i + 16) j'" "j' < j" for j'
  proof
    assume a: "token_at 16 s j' \<and> third_at s j' \<noteq> None"
    then obtain k' where "gap_ok s (j' + 16) k'" "token_at 16 s k'"
      using third_at_exists by blast
    with a that(1) ti have "spec_triple s i j' k'"
      by (simp add: spec_triple_def token_at_iff)
    with least that(2) show False by fastforce
  qed
  then have sj: "second_at s i = Some j"
    unfolding second_at_def lazy_dots_Some_iff [OF token_at_end [OF ti]]
    using gij tj third_j by blast
  have "\<not> token_at 16 s k'" if "gap_ok s (j + 16) k'" "k' < k" for k'
  proof
    assume "token_at 16 s k'"
    with that(1) ti tj gij have "spec_triple s i j k'"
      by (simp add: spec_triple_def token_at_iff)
    with least that(2) show False by fastforce
  qed
  then have tk': "third_at s j = Some k"
    unfolding third_at_def lazy_dots_Some_iff [OF token_at_end [OF tj]]
    using gjk tk by blast
  show ?thesis unfolding match2_def f by (simp add: sj tk')
qed

lemma match2_no_triple:
  assumes "\<forall>i j k. \<not> spec_triple s i j k"
  shows "match2 s = None"
proof -
  have "find (\<lambda>i. token_at 16 s i \<and> second_at s i \<noteq> None) [0..<Suc (length s)] = None"
    unfolding find_upt_None starts_triple_iff using assms by blast
  then show ?thesis unfolding match2_def by simp
qed

lemma spec_token_run_bound: "spec_token_run s i n \<Longrightarrow> i < Suc (length s)"
  by (simp add: spec_token_run_def)

lemma all_runs_bounded:
  "(\<forall>i. spec_token_run s i n \<longrightarrow> Q i) \<longleftrightarrow>
   list_all (\<lambda>i. spec_token_run s i n \<longrightarrow> Q i) [0..<Suc (length s)]"
  unfolding list_all_iff using spec_token_run_bound by (auto simp del: upt_Suc)


subsection \<open>The concrete pages\<close>

lemma no48_one_line: "\<forall>i. \<not> spec_token_run html_one_line i 48"
proof -
  have "list_all (\<lambda>i. spec_token_run html_one_line i 48 \<longrightarrow> False) [0..<Suc (length html_one_line)]"
    by code_simp
  then show ?thesis using all_runs_bounded [of html_one_line 48 "\<lambda>_. False"] by simp
qed

lemma runs16_one_line: "\<forall>i. spec_token_run html_one_line i 16 \<longrightarrow> i = 0 \<or> i = 17 \<or> i = 34"
proof -
  have "list_all (\<lambda>i. spec_token_run html_one_line i 16 \<longrightarrow> i = 0 \<or> i = 17 \<or> i = 34)
      [0..<Suc (length html_one_line)]"
    by code_simp
  then show ?thesis using all_runs_bounded [of html_one_line 16 "\<lambda>i. i = 0 \<or> i = 17 \<or> i = 34"] by simp
qed

lemma triple_one_line: "spec_triple html_one_line 0 17 34"
  by code_simp

lemma least_one_line:
  "\<forall>i' j' k'. spec_triple html_one_line i' j' k' \<longrightarrow>
     0 < i' \<or> (0 = i' \<and> (17 < j' \<or> (17 = j' \<and> 34 \<le> k')))"
proof (intro allI impI)
  fix i' j' k' assume t: "spec_triple html_one_line i' j' k'"
  then have "i' = 0 \<or> i' = 17 \<or> i' = 34" "j' = 0 \<or> j' = 17 \<or> j' = 34" "k' = 0 \<or> k' = 17 \<or> k' = 34"
    using runs16_one_line by (auto simp: spec_triple_def)
  moreover from t have "i' + 16 \<le> j'" "j' + 16 \<le> k'" by (auto simp: spec_triple_def gap_ok_def)
  ultimately show "0 < i' \<or> (0 = i' \<and> (17 < j' \<or> (17 = j' \<and> 34 \<le> k')))" by auto
qed


lemma no48_no_token: "\<forall>i. \<not> spec_token_run html_no_token i 48"
proof -
  have "list_all (\<lambda>i. spec_token_run html_no_token i 48 \<longrightarrow> False)
      [0..<Suc (length html_no_token)]"
    by code_simp
  then show ?thesis using all_runs_bounded [of html_no_token 48 "\<lambda>_. False"] by simp
qed

lemma no_triple_no_token: "\<forall>i j k. \<not> spec_triple html_no_token i j k"
proof -
  have "list_all (\<lambda>i. spec_token_run html_no_token i 16 \<longrightarrow> False)
      [0..<Suc (length html_no_token)]"
    by code_simp
  then have "\<forall>i. \<not> spec_token_run html_no_token i 16"
    using all_runs_bounded [of html_no_token 16 "\<lambda>_. False"] by simp
  then show ?thesis by (simp add: spec_triple_def)
qed

lemma no48_three_lines: "\<forall>i. \<not> spec_token_run html_three_lines i 48"
proof -
  have "list_all (\<lambda>i. spec_token_run html_three_lines i 48 \<longrightarrow> False)
      [0..<Suc (length html_three_lines)]"
    by code_simp
  then show ?thesis using all_runs_bounded [of html_three_lines 48 "\<lambda>_. False"] by simp
qed

subsection \<open>The claims\<close>

text \<open>
  Claim C9. For every HTML input, whenever \<open>extractNonce\<close> returns a non-null result,
  that result is a string of exactly 48 characters, all of them alphanumeric: the
  single-run tier returns the 48 characters of its match, the second tier the three
  groups of 16.
\<close>

theorem extractNonce_shape:
  "extractNonce html = Some t \<Longrightarrow> length t = 48 \<and> list_all is_alnum t"
proof -
  assume a: "extractNonce html = Some t"
  show ?thesis
  proof (cases "match1 html")
    case (Some i)
    then have "token_at 48 html i" by (auto simp: match1_def find_Some_iff)
    with a Some show ?thesis by (auto simp: extractNonce_def dest: token_at_shape)
  next
    case None
    with a obtain i j k where m: "match2 html = Some (i, j, k)"
      and t: "t = substring html i 16 @ substring html j 16 @ substring html k 16"
      by (auto simp: extractNonce_def split: option.splits)
    from match2_shape [OF m] have
      "length (substring html i 16) = 16 \<and> list_all is_alnum (substring html i 16)"
      "length (substring html j 16) = 16 \<and> list_all is_alnum (substring html j 16)"
      "length (substring html k 16) = 16 \<and> list_all is_alnum (substring html k 16)"
      by (simp_all add: token_at_shape)
    then show ?thesis by (simp add: t)
  qed
qed

theorem extractNonce_shape_witness:
  "extractNonce html_one_line = Some (js ''aaaaaaaaaaaaaaaabbbbbbbbbbbbbbbbcccccccccccccccc'') \<and>
   length (js ''aaaaaaaaaaaaaaaabbbbbbbbbbbbbbbbcccccccccccccccc'') = 48 \<and>
   list_all is_alnum (js ''aaaaaaaaaaaaaaaabbbbbbbbbbbbbbbbcccccccccccccccc'')"
proof -
  have e: "extractNonce html_one_line =
      Some (js ''aaaaaaaaaaaaaaaabbbbbbbbbbbbbbbbcccccccccccccccc'')"
    by code_simp
  from extractNonce_shape [OF e] e show ?thesis by simp
qed

text \<open>
  Claim C4. For every HTML input that contains a contiguous alphanumeric run of exactly
  48 characters delimited by word boundaries, \<open>extractNonce\<close> returns exactly the first
  such run: if such a run starts at \<open>i\<close> and none starts before \<open>i\<close>, the result is
  the 48 characters from \<open>i\<close>.
\<close>

theorem extractNonce_first_48_run:
  assumes "spec_token_run html i 48" and "\<forall>i'<i. \<not> spec_token_run html i' 48"
  shows "extractNonce html = Some (substring html i 48)"
proof -
  have "i < Suc (length html)" using assms(1) by (simp add: spec_token_run_def)
  moreover have "token_at 48 html i" using assms(1) by (simp add: token_at_iff)
  moreover have "\<forall>j<i. \<not> token_at 48 html j" using assms(2) by (simp add: token_at_iff)
  ultimately have "match1 html = Some i"
    unfolding match1_def find_upt_Some by blast
  then show ?thesis by (simp add: extractNonce_def)
qed

theorem extractNonce_first_48_run_witness:
  "spec_token_run html_token 3 48 \<and>
   extractNonce html_token = Some (js ''0123456789abcdefghijklmnopqrstuvwxyzABCDEFGHIJKL'')"
proof -
  have r: "spec_token_run html_token 3 48" by code_simp
  have "list_all (\<lambda>i. \<not> spec_token_run html_token i 48) [0..<3]" by code_simp
  then have "\<forall>i'<3. \<not> spec_token_run html_token i' 48" by (simp add: list_all_iff)
  from extractNonce_first_48_run [OF r this] r show ?thesis
    by (simp add: html_token_def js_def substring_def)
qed

text \<open>
  Claim C5, as stated, fails: a page with no 48-character run and three 16-character
  runs in document order, each on a line of its own, gives null, because \<open>.\<close> does
  not match a line terminator.
\<close>

theorem extractNonce_three_lines_counterexample:
  "spec_token_run html_three_lines 0 16 \<and> spec_token_run html_three_lines 17 16 \<and>
   spec_token_run html_three_lines 34 16 \<and>
   \<not> (\<exists>i. spec_token_run html_three_lines i 48) \<and>
   extractNonce html_three_lines = None"
proof -
  have "spec_token_run html_three_lines 0 16 \<and> spec_token_run html_three_lines 17 16 \<and>
      spec_token_run html_three_lines 34 16 \<and> extractNonce html_three_lines = None"
    by code_simp
  then show ?thesis using no48_three_lines by simp
qed

text \<open>
  Claim C5, amended. For every HTML input that contains no 48-character alphanumeric run
  delimited by word boundaries: if it contains three alphanumeric runs of exactly 16
  characters, each delimited by word boundaries, in document order with no line
  terminator between the first and the second nor between the second and the third,
  \<open>extractNonce\<close> returns the concatenation, in document order, of the first such
  three runs (the earliest first run, then the earliest second, then the earliest
  third); if it contains no such three runs, \<open>extractNonce\<close> returns null.
\<close>

theorem extractNonce_three_runs_one_line:
  assumes "\<forall>i. \<not> spec_token_run html i 48"
  shows "(spec_triple html i j k \<and>
          (\<forall>i' j' k'. spec_triple html i' j' k' \<longrightarrow>
             i < i' \<or> (i = i' \<and> (j < j' \<or> (j = j' \<and> k \<le> k'))))
          \<longrightarrow> extractNonce html =
                Some (substring html i 16 @ substring html j 16 @ substring html k 16))
       \<and> ((\<forall>i j k. \<not> spec_triple html i j k) \<longrightarrow> extractNonce html = None)"
  using no_48_run_match1 [OF assms]
  by (auto simp: extractNonce_def match2_first_triple match2_no_triple)

theorem extractNonce_three_runs_one_line_witness:
  "spec_triple html_one_line 0 17 34 \<and>
   extractNonce html_one_line = Some (js ''aaaaaaaaaaaaaaaabbbbbbbbbbbbbbbbcccccccccccccccc'') \<and>
   extractNonce html_no_token = None"
proof -
  have a: "extractNonce html_one_line =
      Some (substring html_one_line 0 16 @ substring html_one_line 17 16 @
            substring html_one_line 34 16)"
    using extractNonce_three_runs_one_line [OF no48_one_line, of 0 17 34]
      triple_one_line least_one_line by blast
  have b: "extractNonce html_no_token = None"
    using extractNonce_three_runs_one_line [OF no48_no_token] no_triple_no_token by blast
  have c: "substring html_one_line 0 16 @ substring html_one_line 17 16 @
      substring html_one_line 34 16 = js ''aaaaaaaaaaaaaaaabbbbbbbbbbbbbbbbcccccccccccccccc''"
    by (simp add: html_one_line_def js_def substring_def)
  show ?thesis using a b c triple_one_line by simp
qed

section \<open>Properties of the local decryption\<close>

lemma length_digest_bytes: "length (digest_bytes (w :: 'a::len word)) = LENGTH('a) div 8"
  by (simp add: digest_bytes_def)

lemma length_md5_bytes [simp]: "length (digest_bytes (w :: 128 word)) = 16"
  by (simp add: length_digest_bytes)



lemma length_Salted [simp]: "length Salted = 8"
  by (simp add: Salted_def)




text \<open>
  Claim C3. For every ciphertext whose base64 decoding does not begin with the 8-byte
  marker \<open>Salted__\<close>, the salted-local strategy fails (with the error
  \<open>Invalid OpenSSL format\<close>), that error does not leave \<open>decryptLocally\<close>, and
  the chain goes on to the next strategy: what \<open>decryptLocally\<close> returns is what
  AES-256-CBC decryption gives under key = SHA-256 of the secret and IV = the first 16
  bytes of the nonce string, its text when that decryption succeeds and the chain's own
  failure when it does not.
\<close>

theorem decryptLocally_without_marker:
  assumes "take 8 (base64_decode lib encryptedData) \<noteq> Salted"
  shows "decryptOpenSSL lib (SourcesString encryptedData) secret = Inl (Error ''Invalid OpenSSL format'') \<and>
     decryptLocally lib (SourcesString encryptedData) nonce secret =
       (case aes_256_cbc_decrypt lib (digest_bytes (sha256 lib (utf8_encode lib secret)))
               (take 16 (utf8_encode lib nonce)) (base64_decode lib encryptedData) of
          Some out \<Rightarrow> Inr (utf8_decode lib out)
        | None \<Rightarrow> Inl (Error ''Local decryption failed''))"
proof -
  have 1: "decryptOpenSSL lib (SourcesString encryptedData) secret = Inl (Error ''Invalid OpenSSL format'')"
    using assms by (simp add: decryptOpenSSL_def Buffer_from_base64_def)
  show ?thesis
    unfolding decryptLocally_def 1
    by (simp add: nonce_fallback_def Buffer_from_base64_def split: option.splits)
qed

theorem decryptLocally_without_marker_witness:
  "take 8 (base64_decode demo_lib (js ''bm90IHNhbHRlZA=='')) \<noteq> Salted \<and>
   decryptOpenSSL demo_lib (SourcesString (js ''bm90IHNhbHRlZA=='')) (js ''key'')
     = Inl (Error ''Invalid OpenSSL format'') \<and>
   decryptLocally demo_lib (SourcesString (js ''bm90IHNhbHRlZA=='')) (js ''0123456789abcdefghijklmnopqrstuvwxyzABCDEFGHIJKL'') (js ''key'')
     = Inr (js ''==AZlRHbhNHI09mb'')"
proof -
  have h: "take 8 (base64_decode demo_lib (js ''bm90IHNhbHRlZA=='')) \<noteq> Salted" by code_simp
  have c: "(case aes_256_cbc_decrypt demo_lib (digest_bytes (sha256 demo_lib (utf8_encode demo_lib (js ''key''))))
               (take 16 (utf8_encode demo_lib (js ''0123456789abcdefghijklmnopqrstuvwxyzABCDEFGHIJKL''))) (base64_decode demo_lib (js ''bm90IHNhbHRlZA=='')) of
          Some out \<Rightarrow> Inr (utf8_decode demo_lib out)
        | None \<Rightarrow> Inl (Error ''Local decryption failed'')) = Inr (js ''==AZlRHbhNHI09mb'')" by code_simp
  from decryptLocally_without_marker [OF h, of "js ''key''" "js ''0123456789abcdefghijklmnopqrstuvwxyzABCDEFGHIJKL''"] h c
  show ?thesis by simp
qed

section \<open>Properties of the extractors\<close>

lemma fetch_payload_calls:
  "fetch_payload w e = (log, r) \<Longrightarrow> GET_key \<notin> set log \<and> Decrypt \<notin> set log"
  by (auto simp: fetch_payload_def split: option.splits)

lemma MegaCloud_extract2_local_returns:
  "\<exists>log d. MegaCloud_extract2_local lib w e = (log, Inr d)"
  by (auto simp: MegaCloud_extract2_local_def split: prod.splits sum.splits)

lemma MegaCloud_extract_local_returns:
  "\<exists>log r. MegaCloud_extract_local lib w u = (log, Inr r)"
  by (auto simp: MegaCloud_extract_local_def split: option.splits prod.splits sum.splits)

lemma MegaCloud_extract_openssl_returns:
  "\<exists>log r. MegaCloud_extract_openssl lib w u = (log, Inr r)"
  by (auto simp: MegaCloud_extract_openssl_def split: option.splits prod.splits sum.splits)

lemma extract_local_on_payload:
  assumes "new_URL w u = Some embedUrl"
    and "fetch_payload w embedUrl = (log, Inr (nonce, Some data))"
  shows "MegaCloud_extract_local lib w u =
     (log @ fst (resolve_sources_local lib w nonce data),
      Inr \<lparr> res_sources = snd (resolve_sources_local lib w nonce data),
            res_tracks = Some (caption_tracks (es_tracks data)) \<rparr>)"
  using assms
  by (simp add: MegaCloud_extract_local_def MegaCloud_extract2_local_def extract2_local_body_def
      payload_stage_local_def split: prod.splits)

lemma extract_on_payload:
  assumes "new_URL w u = Some embedUrl"
    and "fetch_payload w embedUrl = (log, Inr (nonce, Some data))"
  shows "MegaCloud_extract w u =
     (log, Inr \<lparr> res_sources = payload_sources data,
            res_tracks = Some (caption_tracks (es_tracks data)) \<rparr>)"
  using assms by (simp add: MegaCloud_extract_def MegaCloud_extract2_def)

lemma MegaCloud_extract2_no_fields:
  "fetch_payload w e = (log, Inr (nonce, Some no_fields)) \<Longrightarrow>
   MegaCloud_extract2 w e = (log, Inr extractedData0)"
  by (simp add: MegaCloud_extract2_def no_fields_def extractedData0_def payload_sources_def
      caption_tracks_def tracks_or_empty_def number_or_0_def)

lemma payload_stage_local_no_fields:
  "payload_stage_local lib w nonce no_fields = ([], extractedData0)"
  by (simp add: payload_stage_local_def resolve_sources_local_def no_fields_def
      extractedData0_def payload_sources_def caption_tracks_def tracks_or_empty_def
      number_or_0_def)

lemma payload_stage_openssl_no_fields:
  "payload_stage_openssl lib w no_fields = ([], extractedData0)"
  by (simp add: payload_stage_openssl_def resolve_sources_openssl_def no_fields_def
      extractedData0_def tracks_or_empty_def number_or_0_def)

lemma map_sources_typed:
  "list_all (\<lambda>src. src_type src \<noteq> None \<and> src_type src \<noteq> Some []) xs \<Longrightarrow> map_sources xs = xs"
  by (induction xs) (auto simp: map_sources_def type_or_hls_def)

lemma demo_fileId: "fileId_of html_page = Some (js ''abc123'')"
  by code_simp

lemma demo_extractNonce: "extractNonce html_page = Some demo_nonce"
  by code_simp

lemma demo_fetch:
  "fetch_payload (demo_world html_page (Some p) k) demo_url = (demo_log, Inr (demo_nonce, Some p))"
  by (simp add: fetch_payload_def demo_world_def demo_url_def demo_log_def demo_fileId
      demo_extractNonce)

lemma demo_new_URL: "new_URL (demo_world page p k) embed_url = Some demo_url"
  by (simp add: demo_world_def demo_url_def)

lemma demo_caption_tracks: "caption_tracks (Some [en_captions, thumbnails]) = [en_captions]"
  by code_simp

text \<open>
  Claim C1 says that \<open>MegaCloud.extract\<close> never raises. The \<open>extract\<close> of the
  variants of src/Readme.md wraps its body in \<open>try\<close>/\<open>catch\<close> and always returns a
  result (\<open>MegaCloud_extract_local_returns\<close>, \<open>MegaCloud_extract_openssl_returns\<close>).
  The \<open>extract\<close> of src/extractors/megacloud.ts has no \<open>catch\<close>: on a page without a
  \<open>data-id\<close> attribute the error of \<open>extract2\<close> reaches the caller.
\<close>

theorem MegaCloud_extract_raises:
  "fileId_of html_token = None \<and>
   snd (MegaCloud_extract (demo_world html_token (Some (payload_array None)) None) embed_url)
     = Inl (Error ''Could not find file ID in embed page'')"
  by code_simp

text \<open>
  Claim C6, as stated, fails: a payload whose \<open>sources\<close> is a string and that carries
  no \<open>encrypted\<close> flag is taken as a plain URL, whatever the key document holds, so
  the sources list is not empty.
\<close>

theorem unflagged_string_counterexample:
  "es_sources (payload_string (js ''https://cdn/x.m3u8'') None)
     = Some (SourcesString (js ''https://cdn/x.m3u8'')) \<and>
   vidstr keydoc_empty = None \<and> rabbit keydoc_empty = None \<and>
   rabbitstream_key keydoc_empty = None \<and>
   snd (MegaCloud_extract_local demo_lib
          (demo_world html_page (Some (payload_string (js ''https://cdn/x.m3u8'') None))
             (Some keydoc_empty))
          embed_url)
     = Inr \<lparr> res_sources = [x_m3u8], res_tracks = Some [en_captions] \<rparr>"
  by code_simp

text \<open>
  Claim C6, amended. For every sources payload that is flagged encrypted and whose
  \<open>sources\<close> field is a non-empty string, and for every key document lacking the
  secret field \<open>vidstr\<close> (the one name this variant reads), the result of
  \<open>MegaCloud.extract\<close> has an empty sources list, and its tracks list contains exactly
  the entries of the payload whose kind is \<open>captions\<close> or \<open>subtitles\<close>, in the
  payload's order.
\<close>

theorem encrypted_string_without_key:
  assumes "new_URL w u = Some embedUrl"
    and "fetch_payload w embedUrl = (log, Inr (nonce, Some data))"
    and "es_encrypted data = Some True"
    and "es_sources data = Some (SourcesString s)" and "s \<noteq> []"
    and "get_key w = Some keyData" and "vidstr keyData = None"
  shows "snd (MegaCloud_extract_local lib w u) =
     Inr \<lparr> res_sources = [],
           res_tracks = Some (filter (\<lambda>track. track_kind track = js ''captions'' \<or>
                                          track_kind track = js ''subtitles'')
                                (tracks_or_empty (es_tracks data))) \<rparr>"
proof -
  have "resolve_sources_local lib w nonce data = ([GET_key], [])"
    using assms(3-7)
    by (simp add: resolve_sources_local_def truthy_sources_def decrypt_block_local_def)
  then show ?thesis
    using extract_local_on_payload [OF assms(1,2), of lib]
    by (simp add: caption_tracks_def)
qed

theorem encrypted_string_without_key_witness:
  "snd (MegaCloud_extract_local demo_lib
          (demo_world html_page (Some (payload_string (js ''bm90IHNhbHRlZA=='') (Some True)))
             (Some keydoc_empty))
          embed_url)
     = Inr \<lparr> res_sources = [], res_tracks = Some [en_captions] \<rparr>"
proof -
  let ?p = "payload_string (js ''bm90IHNhbHRlZA=='') (Some True)"
  let ?w = "demo_world html_page (Some ?p) (Some keydoc_empty)"
  have "snd (MegaCloud_extract_local demo_lib ?w embed_url) =
      Inr \<lparr> res_sources = [],
            res_tracks = Some (filter (\<lambda>track. track_kind track = js ''captions'' \<or>
                                          track_kind track = js ''subtitles'')
                                 (tracks_or_empty (es_tracks ?p))) \<rparr>"
  proof (rule encrypted_string_without_key)
    show "new_URL ?w embed_url = Some demo_url" by (rule demo_new_URL)
    show "fetch_payload ?w demo_url = (demo_log, Inr (demo_nonce, Some ?p))" by (rule demo_fetch)
    show "es_encrypted ?p = Some True" by (simp add: payload_string_def)
    show "es_sources ?p = Some (SourcesString (js ''bm90IHNhbHRlZA==''))"
      by (simp add: payload_string_def)
    show "js ''bm90IHNhbHRlZA=='' \<noteq> []" by (simp add: js_def)
    show "get_key ?w = Some keydoc_empty" by (simp add: demo_world_def)
    show "vidstr keydoc_empty = None" by (simp add: keydoc_empty_def)
  qed
  moreover have "filter (\<lambda>track. track_kind track = js ''captions'' \<or>
                                 track_kind track = js ''subtitles'')
                   (tracks_or_empty (es_tracks ?p)) = [en_captions]"
    using demo_caption_tracks by (simp add: caption_tracks_def payload_string_def)
  ultimately show ?thesis by simp
qed

text \<open>
  An array payload is passed through by src/extractors/megacloud.ts whatever the
  payload's \<open>encrypted\<close> flag, and by the variant with local decryption when the flag
  is absent or false: the entries are the resolved sources (an absent or empty type
  reading \<open>hls\<close>), and the calls made are the two fetches of \<open>fetch_payload\<close>, with
  no fetch of the key document and no decryption.
\<close>

lemma array_passthrough:
  assumes "new_URL w u = Some embedUrl"
    and "fetch_payload w embedUrl = (log, Inr (nonce, Some data))"
    and "es_sources data = Some (SourcesArray xs)"
  shows "MegaCloud_extract w u =
           (log, Inr \<lparr> res_sources = map_sources xs,
                       res_tracks = Some (caption_tracks (es_tracks data)) \<rparr>) \<and>
         (es_encrypted data \<noteq> Some True \<longrightarrow>
            MegaCloud_extract_local lib w u =
              (log, Inr \<lparr> res_sources = map_sources xs,
                          res_tracks = Some (caption_tracks (es_tracks data)) \<rparr>)) \<and>
         GET_key \<notin> set log \<and> Decrypt \<notin> set log"
proof -
  have "es_encrypted data \<noteq> Some True \<Longrightarrow>
      resolve_sources_local lib w nonce data = ([], map_sources xs)"
    using assms(3) by (simp add: resolve_sources_local_def payload_sources_def)
  then show ?thesis
    using extract_local_on_payload [OF assms(1,2), of lib] extract_on_payload [OF assms(1,2)]
      fetch_payload_calls [OF assms(2)] assms(3)
    by (simp add: payload_sources_def)
qed

lemma array_passthrough_example:
  "MegaCloud_extract (demo_world html_page (Some (payload_array None)) None) embed_url
     = (demo_log, Inr \<lparr> res_sources = [x_m3u8], res_tracks = Some [en_captions] \<rparr>) \<and>
   MegaCloud_extract_local demo_lib (demo_world html_page (Some (payload_array None)) None)
       embed_url
     = (demo_log, Inr \<lparr> res_sources = [x_m3u8], res_tracks = Some [en_captions] \<rparr>) \<and>
   GET_key \<notin> set demo_log \<and> Decrypt \<notin> set demo_log"
proof -
  let ?p = "payload_array None"
  let ?w = "demo_world html_page (Some ?p) None"
  have s: "es_sources ?p = Some (SourcesArray [x_m3u8])" by (simp add: payload_array_def)
  have f: "es_encrypted ?p \<noteq> Some True" by (simp add: payload_array_def)
  have m: "map_sources [x_m3u8] = [x_m3u8]"
    by (rule map_sources_typed) (simp add: x_m3u8_def js_def)
  have c: "caption_tracks (es_tracks ?p) = [en_captions]"
    using demo_caption_tracks by (simp add: payload_array_def)
  from array_passthrough [OF demo_new_URL demo_fetch s, of None demo_lib] f
  show ?thesis by (simp add: m c)
qed

text \<open>
  Claim C7 says that an array payload is passed through, with no call of the key
  document fetch or of a decryption strategy, regardless of the payload's \<open>encrypted\<close>
  flag. src/extractors/megacloud.ts does so (\<open>array_passthrough\<close>). The variant with
  local decryption tests \<open>isEncrypted && data.sources\<close> before
  \<open>Array.isArray(data.sources)\<close> and hands the array to the decryption branch as
  \<open>data.sources as string\<close>: with the flag set, the key document is fetched, and here,
  the document holding no key, the array is not returned.
\<close>

theorem flagged_array_fetches_key:
  "es_sources (payload_array (Some True)) = Some (SourcesArray [x_m3u8]) \<and>
   fst (MegaCloud_extract_local demo_lib
          (demo_world html_page (Some (payload_array (Some True))) (Some keydoc_empty))
          embed_url)
     = demo_log @ [GET_key] \<and>
   snd (MegaCloud_extract_local demo_lib
          (demo_world html_page (Some (payload_array (Some True))) (Some keydoc_empty))
          embed_url)
     = Inr \<lparr> res_sources = [], res_tracks = Some [en_captions] \<rparr>"
  by code_simp

text \<open>
  Claim C8 says that the returned tracks are exactly the caption and subtitle entries.
  src/extractors/megacloud.ts and the variant with local decryption filter them
  (\<open>extract_on_payload\<close>, \<open>extract_local_on_payload\<close>). The variant of
  src/Readme.md, lines 1367-1525, assigns \<open>data.tracks || []\<close> unfiltered: a
  \<open>thumbnails\<close> entry of the payload is returned.
\<close>

theorem openssl_tracks_unfiltered:
  "track_kind thumbnails = js ''thumbnails'' \<and>
   snd (MegaCloud_extract_openssl demo_lib
          (demo_world html_page (Some (payload_array None)) None) embed_url)
     = Inr \<lparr> res_sources = [x_m3u8], res_tracks = Some [en_captions, thumbnails] \<rparr>"
  by code_simp

section \<open>Properties of the title matching\<close>

lemma find_filter: "find P (filter Q xs) = find (\<lambda>x. Q x \<and> P x) xs"
  by (induction xs) auto

lemma closer_year_cases: "closer_year env n a b = a \<or> closer_year env n a b = b"
  by (auto simp: closer_year_def split: option.splits)

lemma foldl_closer_year_mem: "foldl (closer_year env n) a xs \<in> insert a (set xs)"
proof (induction xs arbitrary: a)
  case Nil
  then show ?case by simp
next
  case (Cons x xs)
  from Cons.IH [of "closer_year env n a x"] closer_year_cases [of env n a x]
  show ?case by auto
qed

lemma match_by_year_movie_similar:
  assumes "match_by_year env True rel tmdbTitle y = Some m"
  shows "m \<in> set rel \<and> isTitleSimilarEnough env (fr_title m) tmdbTitle"
proof -
  let ?ms = "filter (\<lambda>m. isTitleSimilarEnough env (fr_title m) tmdbTitle) rel"
  have hd_in: "?ms \<noteq> [] \<Longrightarrow> hd ?ms \<in> set ?ms" by (rule hd_in_set)
  have fold_in: "?ms \<noteq> [] \<Longrightarrow> foldl (closer_year env n) (hd ?ms) ?ms \<in> set ?ms" for n
    using foldl_closer_year_mem [of env n "hd ?ms" ?ms] hd_in by auto
  from assms consider
      (exact) "find (\<lambda>m. isTitleSimilarEnough env (fr_title m) tmdbTitle \<and> flixYear m = y) rel = Some m"
    | (first) "?ms \<noteq> []" "m = hd ?ms"
    | (closest) n where "?ms \<noteq> []" "m = foldl (closer_year env n) (hd ?ms) ?ms"
    by (auto simp: match_by_year_def Let_def split: option.splits if_splits)
  then show ?thesis
  proof cases
    case exact
    then show ?thesis by (auto simp: find_Some_iff)
  next
    case first
    with hd_in have "m \<in> set ?ms" by simp
    then show ?thesis by simp
  next
    case closest
    with fold_in have "m \<in> set ?ms" by simp
    then show ?thesis by simp
  qed
qed

lemma movie_match_is_similar:
  assumes "findBestFlixHQMatch env results d (js ''MOVIE'') = Inr (Some m)"
    and "td_title d = Some title"
  shows "m \<in> set results \<and> fr_type m = js ''MOVIE'' \<and>
         isTitleSimilarEnough env (fr_title m) (toLowerCase env title)"
proof -
  let ?rel = "filter (\<lambda>m. fr_type m = js ''MOVIE'') results"
  from assms have "match_by_year env True ?rel (toLowerCase env title)
      (map_option (take 4) (td_release_date d)) = Some m"
    by (auto simp: findBestFlixHQMatch_def Let_def split: if_splits)
  from match_by_year_movie_similar [OF this] show ?thesis by simp
qed

text \<open>
  Claim C10, as stated, fails: a release date that is not empty but holds white space
  only gives a release year that is not empty, and for it the function goes on to the
  similar titles and returns the first one, whose year is another.
\<close>

theorem blank_year_counterexample:
  "take 4 (js '' '') \<noteq> [] \<and>
   flixYear dune_1984 \<noteq> Some (take 4 (js '' '')) \<and>
   flixYear dune_2021 \<noteq> Some (take 4 (js '' '')) \<and>
   findBestFlixHQMatch demo_env [dune_1984, dune_2021] (movie_details ''Dune'' '' '')
     (js ''MOVIE'') = Inr (Some dune_1984)"
  by code_simp

text \<open>
  Claim C10, amended. For every movie lookup where the TMDB details carry a release
  year that is not blank (not empty and not white space only), \<open>findBestFlixHQMatch\<close>
  returns the first relevant similar-title search result whose release year is exactly
  that year, and null when there is none: it falls back neither to a closest year nor
  to the first relevant result. (The first-relevant fallback is for series only: what
  the function returns for a movie is always a relevant result with a similar title,
  \<open>movie_match_is_similar\<close>.)
\<close>

theorem movie_exact_year_or_null:
  assumes "ty = js ''MOVIE''"
    and "td_title d = Some title"
    and "td_release_date d = Some date"
    and "trim (take 4 date) \<noteq> []"
  shows "findBestFlixHQMatch env results d ty =
     Inr (find (\<lambda>m. fr_type m = ty \<and>
                     isTitleSimilarEnough env (fr_title m) (toLowerCase env title) \<and>
                     flixYear m = Some (take 4 date)) results)"
proof -
  have ne: "take 4 date \<noteq> []" using assms(4) by (auto simp: trim_def)
  show ?thesis
  proof (cases "filter (\<lambda>m. fr_type m = ty) results = []")
    case True
    then have "find (\<lambda>m. fr_type m = ty \<and>
                     isTitleSimilarEnough env (fr_title m) (toLowerCase env title) \<and>
                     flixYear m = Some (take 4 date)) results = None"
      by (auto simp: find_None_iff filter_empty_conv)
    with True assms show ?thesis by (simp add: findBestFlixHQMatch_def Let_def)
  next
    case False
    with assms ne show ?thesis
      by (simp add: findBestFlixHQMatch_def Let_def match_by_year_def find_filter
          split: option.splits)
  qed
qed

theorem movie_exact_year_or_null_witness:
  "findBestFlixHQMatch demo_env [dune_1984, dune_2021] (movie_details ''Dune'' ''2021-10-22'')
     (js ''MOVIE'') = Inr (Some dune_2021) \<and>
   findBestFlixHQMatch demo_env [dune_1984, dune_2021] (movie_details ''Dune'' ''1999-01-01'')
     (js ''MOVIE'') = Inr None"
proof -
  have t: "td_title (movie_details ''Dune'' date) = Some (js ''Dune'')"
    and r: "td_release_date (movie_details ''Dune'' date) = Some (js date)" for date
    by (simp_all add: movie_details_def)
  have y1: "trim (take 4 (js ''2021-10-22'')) \<noteq> []" by code_simp
  have y2: "trim (take 4 (js ''1999-01-01'')) \<noteq> []" by code_simp
  have f1: "find (\<lambda>m. fr_type m = js ''MOVIE'' \<and>
                isTitleSimilarEnough demo_env (fr_title m) (toLowerCase demo_env (js ''Dune'')) \<and>
                flixYear m = Some (take 4 (js ''2021-10-22''))) [dune_1984, dune_2021]
            = Some dune_2021"
    by code_simp
  have f2: "find (\<lambda>m. fr_type m = js ''MOVIE'' \<and>
                isTitleSimilarEnough demo_env (fr_title m) (toLowerCase demo_env (js ''Dune'')) \<and>
                flixYear m = Some (take 4 (js ''1999-01-01''))) [dune_1984, dune_2021]
            = None"
    by code_simp
  from movie_exact_year_or_null [OF refl t r y1, of demo_env "[dune_1984, dune_2021]"]
    movie_exact_year_or_null [OF refl t r y2, of demo_env "[dune_1984, dune_2021]"]
  show ?thesis by (simp only: f1 f2)
qed

end
